theory Spec2Isabelle
  imports Main "HOL-Library.Word"
begin

unbundle bit_operations_syntax

section \<open>VmxRegions.c: allocation of the VMX regions\<close>

text \<open>
  A shallow embedding of \<^verbatim>\<open>hyperdbg/hprdbghv/code/vmm/vmx/VmxRegions.c\<close>.
  Pointers and physical addresses are 64-bit words, \<^verbatim>\<open>NULL\<close> is the word 0, memory
  is byte addressed.  Every function takes the machine state and returns it updated; the
  host platform (allocators, address translation, the privileged instructions and the
  compile-time constants of \<^verbatim>\<open>pch.h\<close>) is a parameter.
\<close>

subsection \<open>Machine state and platform\<close>

type_synonym UINT64 = "64 word"
type_synonym UINT8 = "8 word"
type_synonym mem = "64 word \<Rightarrow> 8 word"

text \<open>A diagnostic: the macro that emitted it, its format string and its arguments.\<close>

datatype log_entry = LogError string "UINT64 list" | LogDebugInfo string "UINT64 list"

text \<open>
  \<open>blocks\<close> lists the live allocations (start, size in bytes), the latest first;
  \<open>alloc_calls\<close> counts the requests made to the allocators so far; \<open>logged\<close> holds
  the diagnostics in the order they were emitted.
\<close>

record machine =
  memory :: mem
  blocks :: "(UINT64 \<times> nat) list"
  alloc_calls :: nat
  logged :: "log_entry list"
  irql :: nat

text \<open>
  What the file takes from its environment.  \<open>allocator k n\<close> is the address the memory
  service hands out for its \<open>k\<close>-th request, of \<open>n\<close> bytes (0 when it fails);
  \<open>readmsr\<close> is \<^verbatim>\<open>__readmsr\<close>, \<open>None\<close> when the read raises a hardware exception;
  \<open>vmx_on\<close> is the status \<^verbatim>\<open>__vmx_on\<close> returns for a physical address.  The sizes
  are the constants of the headers, which the file does not define.
\<close>

record platform =
  ENV_WINDOWS :: bool
  DISPATCH_LEVEL :: nat
  KeRaiseIrqlToDpcLevel :: "nat \<Rightarrow> nat"
  allocator :: "nat \<Rightarrow> nat \<Rightarrow> UINT64"
  VirtualAddressToPhysicalAddress :: "UINT64 \<Rightarrow> UINT64"
  readmsr :: "32 word \<Rightarrow> UINT64 option"
  vmx_on :: "UINT64 \<Rightarrow> UINT8"
  VMXON_SIZE :: nat
  VMCS_SIZE :: nat
  VMM_STACK_SIZE :: nat

text \<open>
  The fields of \<^verbatim>\<open>VIRTUAL_MACHINE_STATE\<close> that this file writes.  The structure is
  declared elsewhere; its other fields are the extension of the record, so a function on
  \<open>'a VIRTUAL_MACHINE_STATE_scheme\<close> is a function on the whole structure.
\<close>

record VIRTUAL_MACHINE_STATE =
  VmxonRegionPhysicalAddress :: UINT64
  VmxonRegionVirtualAddress :: UINT64
  VmcsRegionPhysicalAddress :: UINT64
  VmcsRegionVirtualAddress :: UINT64
  VmmStack :: UINT64
  MsrBitmapVirtualAddress :: UINT64
  MsrBitmapPhysicalAddress :: UINT64
  IoBitmapVirtualAddressA :: UINT64
  IoBitmapPhysicalAddressA :: UINT64
  IoBitmapVirtualAddressB :: UINT64
  IoBitmapPhysicalAddressB :: UINT64

subsection \<open>Constants\<close>

text \<open>Modelled from the spec: \<^verbatim>\<open>ALIGNMENT_PAGE_SIZE\<close> and \<^verbatim>\<open>PAGE_SIZE\<close> are not
  defined in the file; the spec gives the page size as 4096.\<close>

definition ALIGNMENT_PAGE_SIZE :: nat where
  "ALIGNMENT_PAGE_SIZE = 4096"

definition PAGE_SIZE :: nat where
  "PAGE_SIZE = 4096"

text \<open>The index of the capability register, as the file's own diagnostic prints it
  (\<^verbatim>\<open>IA32_VMX_BASIC - MSR 0x480\<close>).\<close>

definition IA32_VMX_BASIC :: "32 word" where
  "IA32_VMX_BASIC = 0x480"

text \<open>Modelled from the spec: the bit field \<^verbatim>\<open>VmcsRevisionId\<close> of
  \<^verbatim>\<open>IA32_VMX_BASIC_REGISTER\<close> is declared elsewhere; the spec gives it as the low 31
  bits of the 64-bit capability word.\<close>

definition VmcsRevisionId :: "UINT64 \<Rightarrow> UINT64" where
  "VmcsRevisionId AsUInt = take_bit 31 AsUInt"

subsection \<open>Memory\<close>

text \<open>\<^verbatim>\<open>RtlZeroMemory(dst, n)\<close>: the \<open>n\<close> bytes from \<open>dst\<close> on become 0.\<close>

definition RtlZeroMemory :: "UINT64 \<Rightarrow> nat \<Rightarrow> mem \<Rightarrow> mem" where
  "RtlZeroMemory dst n m = (\<lambda>a. if unat (a - dst) < n then 0 else m a)"

text \<open>\<^verbatim>\<open>*(UINT64 *)a = v\<close> and its read, little endian as on x86-64.\<close>

definition write_u64 :: "UINT64 \<Rightarrow> UINT64 \<Rightarrow> mem \<Rightarrow> mem" where
  "write_u64 a v m =
     (\<lambda>x. if unat (x - a) < 8 then ucast (drop_bit (8 * unat (x - a)) v) else m x)"

definition read_u64 :: "mem \<Rightarrow> UINT64 \<Rightarrow> UINT64" where
  "read_u64 m a =
     horner_sum ucast (2 ^ 8) (map (\<lambda>k. m (a + of_nat k)) [0..<8])"

definition emit :: "log_entry \<Rightarrow> machine \<Rightarrow> machine" where
  "emit e s = s\<lparr>logged := logged s @ [e]\<rparr>"

subsection \<open>The platform memory service\<close>

text \<open>Modelled from the spec: the allocators are external.
  \<^verbatim>\<open>AllocateContiguousZeroed(size) -> buffer | failure\<close> is physically contiguous and
  zero-filled; \<^verbatim>\<open>ExAllocatePoolWithTag\<close> returns a buffer or \<^verbatim>\<open>NULL\<close> and does not
  clear it.  Both count the request, and record the block when they succeed.\<close>

definition CrsAllocateContiguousZeroedMemory ::
  "platform \<Rightarrow> nat \<Rightarrow> machine \<Rightarrow> UINT64 \<times> machine" where
  "CrsAllocateContiguousZeroedMemory p n s =
     (let a = allocator p (alloc_calls s) n;
          s' = s\<lparr>alloc_calls := Suc (alloc_calls s)\<rparr>
      in if a = 0 then (0, s')
         else (a, s'\<lparr>memory := RtlZeroMemory a n (memory s'), blocks := (a, n) # blocks s'\<rparr>))"

definition ExAllocatePoolWithTag ::
  "platform \<Rightarrow> nat \<Rightarrow> machine \<Rightarrow> UINT64 \<times> machine" where
  "ExAllocatePoolWithTag p n s =
     (let a = allocator p (alloc_calls s) n;
          s' = s\<lparr>alloc_calls := Suc (alloc_calls s)\<rparr>
      in if a = 0 then (0, s') else (a, s'\<lparr>blocks := (a, n) # blocks s'\<rparr>))"

text \<open>The prologue of both region allocators, compiled under \<^verbatim>\<open>ENV_WINDOWS\<close>:
  \<^verbatim>\<open>if (KeGetCurrentIrql() > DISPATCH_LEVEL) KeRaiseIrqlToDpcLevel();\<close>\<close>

definition raise_irql :: "platform \<Rightarrow> machine \<Rightarrow> machine" where
  "raise_irql p s =
     (if ENV_WINDOWS p \<and> irql s > DISPATCH_LEVEL p
      then s\<lparr>irql := KeRaiseIrqlToDpcLevel p (irql s)\<rparr> else s)"

subsection \<open>Alignment\<close>

text \<open>The expression both region allocators apply to the buffer and to its physical
  address: \<^verbatim>\<open>(ULONG_PTR)(a + ALIGNMENT_PAGE_SIZE - 1) & ~(ALIGNMENT_PAGE_SIZE - 1)\<close>,
  in 64-bit arithmetic.\<close>

definition aligned_address :: "UINT64 \<Rightarrow> UINT64" where
  "aligned_address a =
     (a + of_nat ALIGNMENT_PAGE_SIZE - 1) AND NOT (of_nat ALIGNMENT_PAGE_SIZE - 1)"

subsection \<open>VmxAllocateVmxonRegion\<close>

text \<open>The result is \<open>None\<close> when \<^verbatim>\<open>__readmsr(IA32_VMX_BASIC)\<close>, which the function
  does not guard, raises; otherwise the boolean returned, the context and the machine.\<close>

definition VmxAllocateVmxonRegion ::
  "platform \<Rightarrow> 'a VIRTUAL_MACHINE_STATE_scheme \<Rightarrow> machine
     \<Rightarrow> (bool \<times> 'a VIRTUAL_MACHINE_STATE_scheme \<times> machine) option" where
  "VmxAllocateVmxonRegion p VCpu s0 =
     (let s1 = raise_irql p s0;
          VmxonSize = 2 * VMXON_SIZE p;
          (VmxonRegion, s2) =
             CrsAllocateContiguousZeroedMemory p (VmxonSize + ALIGNMENT_PAGE_SIZE) s1
      in if VmxonRegion = 0
         then Some (False, VCpu,
                emit (LogError ''Err, couldn't allocate buffer for VMXON region'' []) s2)
         else
           let VmxonRegionPhysicalAddr = VirtualAddressToPhysicalAddress p VmxonRegion;
               AlignedVmxonRegion = aligned_address VmxonRegion;
               s3 = emit (LogDebugInfo ''VMXON Region Address : %llx''
                            [AlignedVmxonRegion]) s2;
               AlignedVmxonRegionPhysicalAddr = aligned_address VmxonRegionPhysicalAddr;
               s4 = emit (LogDebugInfo ''VMXON Region Physical Address : %llx''
                            [AlignedVmxonRegionPhysicalAddr]) s3
           in case readmsr p IA32_VMX_BASIC of
                None \<Rightarrow> None
              | Some AsUInt \<Rightarrow>
                 let s5 = emit (LogDebugInfo
                            ''Revision Identifier (IA32_VMX_BASIC - MSR 0x480) : 0x%x''
                            [VmcsRevisionId AsUInt]) s4;
                     s6 = s5\<lparr>memory :=
                            write_u64 AlignedVmxonRegion (VmcsRevisionId AsUInt) (memory s5)\<rparr>;
                     VmxonStatus = vmx_on p AlignedVmxonRegionPhysicalAddr
                 in if VmxonStatus \<noteq> 0
                    then Some (False, VCpu,
                           emit (LogError
                             ''Err, executing vmxon instruction failed with status : %d''
                             [ucast VmxonStatus]) s6)
                    else Some (True,
                           VCpu\<lparr>VmxonRegionPhysicalAddress := AlignedVmxonRegionPhysicalAddr,
                                VmxonRegionVirtualAddress := VmxonRegion\<rparr>,
                           s6))"

subsection \<open>VmxAllocateVmcsRegion\<close>

definition VmxAllocateVmcsRegion ::
  "platform \<Rightarrow> 'a VIRTUAL_MACHINE_STATE_scheme \<Rightarrow> machine
     \<Rightarrow> (bool \<times> 'a VIRTUAL_MACHINE_STATE_scheme \<times> machine) option" where
  "VmxAllocateVmcsRegion p VCpu s0 =
     (let s1 = raise_irql p s0;
          VmcsSize = 2 * VMCS_SIZE p;
          (VmcsRegion, s2) =
             CrsAllocateContiguousZeroedMemory p (VmcsSize + ALIGNMENT_PAGE_SIZE) s1
      in if VmcsRegion = 0
         then Some (False, VCpu,
                emit (LogError ''Err, couldn't allocate Buffer for VMCS region'' []) s2)
         else
           let VmcsPhysicalAddr = VirtualAddressToPhysicalAddress p VmcsRegion;
               AlignedVmcsRegion = aligned_address VmcsRegion;
               s3 = emit (LogDebugInfo ''VMCS region address : %llx''
                            [AlignedVmcsRegion]) s2;
               AlignedVmcsRegionPhysicalAddr = aligned_address VmcsPhysicalAddr;
               s4 = emit (LogDebugInfo ''VMCS region physical address : %llx''
                            [AlignedVmcsRegionPhysicalAddr]) s3
           in case readmsr p IA32_VMX_BASIC of
                None \<Rightarrow> None
              | Some AsUInt \<Rightarrow>
                 let s5 = emit (LogDebugInfo
                            ''Revision Identifier (IA32_VMX_BASIC - MSR 0x480) : 0x%x''
                            [VmcsRevisionId AsUInt]) s4;
                     s6 = s5\<lparr>memory :=
                            write_u64 AlignedVmcsRegion (VmcsRevisionId AsUInt) (memory s5)\<rparr>
                 in Some (True,
                      VCpu\<lparr>VmcsRegionPhysicalAddress := AlignedVmcsRegionPhysicalAddr,
                           VmcsRegionVirtualAddress := VmcsRegion\<rparr>,
                      s6))"

subsection \<open>VmxAllocateVmmStack, VmxAllocateMsrBitmap, VmxAllocateIoBitmaps\<close>

text \<open>These three assign the allocator's result to the context field first and test the
  field afterwards, so the field is written on both paths.\<close>

definition VmxAllocateVmmStack ::
  "platform \<Rightarrow> 'a VIRTUAL_MACHINE_STATE_scheme \<Rightarrow> machine
     \<Rightarrow> bool \<times> 'a VIRTUAL_MACHINE_STATE_scheme \<times> machine" where
  "VmxAllocateVmmStack p VCpu s0 =
     (let (a, s1) = ExAllocatePoolWithTag p (VMM_STACK_SIZE p) s0;
          VCpu1 = VCpu\<lparr>VmmStack := a\<rparr>
      in if VmmStack VCpu1 = 0
         then (False, VCpu1,
                emit (LogError ''Err, insufficient memory in allocationg vmm stack'' []) s1)
         else
           let s2 = s1\<lparr>memory := RtlZeroMemory (VmmStack VCpu1) (VMM_STACK_SIZE p) (memory s1)\<rparr>;
               s3 = emit (LogDebugInfo ''VMM Stack for logical processor : 0x%llx''
                            [VmmStack VCpu1]) s2
           in (True, VCpu1, s3))"

definition VmxAllocateMsrBitmap ::
  "platform \<Rightarrow> 'a VIRTUAL_MACHINE_STATE_scheme \<Rightarrow> machine
     \<Rightarrow> bool \<times> 'a VIRTUAL_MACHINE_STATE_scheme \<times> machine" where
  "VmxAllocateMsrBitmap p VCpu s0 =
     (let (a, s1) = ExAllocatePoolWithTag p PAGE_SIZE s0;
          VCpu1 = VCpu\<lparr>MsrBitmapVirtualAddress := a\<rparr>
      in if MsrBitmapVirtualAddress VCpu1 = 0
         then (False, VCpu1,
                emit (LogError ''Err, insufficient memory in allocationg MSR Bitmaps'' []) s1)
         else
           let s2 = s1\<lparr>memory :=
                      RtlZeroMemory (MsrBitmapVirtualAddress VCpu1) PAGE_SIZE (memory s1)\<rparr>;
               VCpu2 = VCpu1\<lparr>MsrBitmapPhysicalAddress :=
                         VirtualAddressToPhysicalAddress p (MsrBitmapVirtualAddress VCpu1)\<rparr>;
               s3 = emit (LogDebugInfo ''MSR Bitmap virtual address  : 0x%llx''
                            [MsrBitmapVirtualAddress VCpu2]) s2;
               s4 = emit (LogDebugInfo ''MSR Bitmap physical address : 0x%llx''
                            [MsrBitmapPhysicalAddress VCpu2]) s3
           in (True, VCpu2, s4))"

definition VmxAllocateIoBitmaps ::
  "platform \<Rightarrow> 'a VIRTUAL_MACHINE_STATE_scheme \<Rightarrow> machine
     \<Rightarrow> bool \<times> 'a VIRTUAL_MACHINE_STATE_scheme \<times> machine" where
  "VmxAllocateIoBitmaps p VCpu s0 =
     (let (a, s1) = ExAllocatePoolWithTag p PAGE_SIZE s0;
          VCpu1 = VCpu\<lparr>IoBitmapVirtualAddressA := a\<rparr>
      in if IoBitmapVirtualAddressA VCpu1 = 0
         then (False, VCpu1,
                emit (LogError ''Err, insufficient memory in allocationg I/O Bitmaps A'' []) s1)
         else
           let s2 = s1\<lparr>memory :=
                      RtlZeroMemory (IoBitmapVirtualAddressA VCpu1) PAGE_SIZE (memory s1)\<rparr>;
               VCpu2 = VCpu1\<lparr>IoBitmapPhysicalAddressA :=
                         VirtualAddressToPhysicalAddress p (IoBitmapVirtualAddressA VCpu1)\<rparr>;
               s3 = emit (LogDebugInfo ''I/O Bitmap A Virtual Address  : 0x%llx''
                            [IoBitmapVirtualAddressA VCpu2]) s2;
               s4 = emit (LogDebugInfo ''I/O Bitmap A Physical Address : 0x%llx''
                            [IoBitmapPhysicalAddressA VCpu2]) s3;
               (b, s5) = ExAllocatePoolWithTag p PAGE_SIZE s4;
               VCpu3 = VCpu2\<lparr>IoBitmapVirtualAddressB := b\<rparr>
           in if IoBitmapVirtualAddressB VCpu3 = 0
              then (False, VCpu3,
                     emit (LogError ''Err, insufficient memory in allocationg I/O Bitmaps B'' [])
                       s5)
              else
                let s6 = s5\<lparr>memory :=
                           RtlZeroMemory (IoBitmapVirtualAddressB VCpu3) PAGE_SIZE (memory s5)\<rparr>;
                    VCpu4 = VCpu3\<lparr>IoBitmapPhysicalAddressB :=
                              VirtualAddressToPhysicalAddress p (IoBitmapVirtualAddressB VCpu3)\<rparr>;
                    s7 = emit (LogDebugInfo ''I/O Bitmap B virtual address  : 0x%llx''
                                 [IoBitmapVirtualAddressB VCpu4]) s6;
                    s8 = emit (LogDebugInfo ''I/O Bitmap B physical address : 0x%llx''
                                 [IoBitmapPhysicalAddressB VCpu4]) s7
                in (True, VCpu4, s8))"

subsection \<open>VmxAllocateInvalidMsrBimap\<close>

text \<open>Modelled from the spec: \<^verbatim>\<open>SetBit\<close> (and \<^verbatim>\<open>TestBit\<close>, which reads what it
  wrote) are helpers defined elsewhere.  The spec has one bit per MSR index, 4096 bits in
  512 bytes, and the prober "sets the corresponding bit": bit \<open>i mod 8\<close> of the byte at
  offset \<open>i div 8\<close>.\<close>

definition SetBit :: "nat \<Rightarrow> UINT64 \<Rightarrow> mem \<Rightarrow> mem" where
  "SetBit i addr m =
     m(addr + of_nat (i div 8) := m (addr + of_nat (i div 8)) OR push_bit (i mod 8) 1)"

definition TestBit :: "nat \<Rightarrow> UINT64 \<Rightarrow> mem \<Rightarrow> bool" where
  "TestBit i addr m = bit (m (addr + of_nat (i div 8))) (i mod 8)"

text \<open>The loop \<^verbatim>\<open>for (size_t i = 0; i < 0x1000; ++i)\<close>, from \<open>i\<close> on.  The
  \<^verbatim>\<open>__try\<close> block turns an exception of \<^verbatim>\<open>__readmsr(i)\<close> into the \<^verbatim>\<open>SetBit\<close> of
  the handler; the counter stays below \<open>0x1000\<close>, so it is a \<open>nat\<close>.\<close>

function probe_from :: "platform \<Rightarrow> UINT64 \<Rightarrow> nat \<Rightarrow> mem \<Rightarrow> mem" where
  "probe_from p InvalidMsrBitmap i m =
     (if i < 0x1000
      then probe_from p InvalidMsrBitmap (i + 1)
             (case readmsr p (of_nat i) of
                None \<Rightarrow> SetBit i InvalidMsrBitmap m
              | Some v \<Rightarrow> m)
      else m)"
  by pat_completeness auto
termination
  by (relation "measure (\<lambda>(p, b, i, m). 0x1000 - i)") auto

declare probe_from.simps [simp del]

definition VmxAllocateInvalidMsrBimap :: "platform \<Rightarrow> machine \<Rightarrow> UINT64 \<times> machine" where
  "VmxAllocateInvalidMsrBimap p s0 =
     (let (InvalidMsrBitmap, s1) = ExAllocatePoolWithTag p (0x1000 div 0x8) s0
      in if InvalidMsrBitmap = 0 then (0, s1)
         else
           let s2 = s1\<lparr>memory := RtlZeroMemory InvalidMsrBitmap (0x1000 div 0x8) (memory s1)\<rparr>;
               s3 = s2\<lparr>memory := probe_from p InvalidMsrBitmap 0 (memory s2)\<rparr>
           in (InvalidMsrBitmap, s3))"

subsection \<open>Concrete platforms, machines and contexts\<close>

text \<open>A platform on which everything succeeds: the allocator hands out kernel addresses
  that are not page aligned, the capability register reads \<open>0xDA04000000001F\<close> (revision
  identifier \<open>0x1F\<close>), MSR 5 faults on read, and \<^verbatim>\<open>vmxon\<close> returns 0.\<close>

definition test_platform :: platform where
  "test_platform =
     \<lparr>ENV_WINDOWS = True, DISPATCH_LEVEL = 2, KeRaiseIrqlToDpcLevel = (\<lambda>_. 2),
      allocator = (\<lambda>k n. 0xFFFF800000100010 + 0x10000 * of_nat k),
      VirtualAddressToPhysicalAddress = (\<lambda>a. a - 0xFFFF800000000000),
      readmsr = (\<lambda>i. if i = 0x480 then Some 0xDA04000000001F
                      else if i = 5 then None else Some 0),
      vmx_on = (\<lambda>_. 0),
      VMXON_SIZE = 4096, VMCS_SIZE = 4096, VMM_STACK_SIZE = 0x8000\<rparr>"

text \<open>The same platform with \<^verbatim>\<open>vmxon\<close> returning status 1, with an allocator that
  always fails, with an allocator whose second request fails, and with an MSR read that
  faults for index \<open>0xC0000080\<close> only.\<close>

definition vmxon_failing_platform :: platform where
  "vmxon_failing_platform = test_platform\<lparr>vmx_on := (\<lambda>_. 1)\<rparr>"

definition exhausted_platform :: platform where
  "exhausted_platform = test_platform\<lparr>allocator := (\<lambda>k n. 0)\<rparr>"

definition second_request_failing_platform :: platform where
  "second_request_failing_platform =
     test_platform\<lparr>allocator := (\<lambda>k n. if k = 0 then 0xFFFF800000205000 else 0)\<rparr>"

definition efer_faulting_platform :: platform where
  "efer_faulting_platform =
     test_platform\<lparr>readmsr := (\<lambda>i. if i = 0xC0000080 then None else Some 0)\<rparr>"

definition boot_machine :: machine where
  "boot_machine =
     \<lparr>memory = (\<lambda>_. 0), blocks = [], alloc_calls = 0, logged = [], irql = 0\<rparr>"

definition empty_context :: VIRTUAL_MACHINE_STATE where
  "empty_context =
     \<lparr>VmxonRegionPhysicalAddress = 0, VmxonRegionVirtualAddress = 0,
      VmcsRegionPhysicalAddress = 0, VmcsRegionVirtualAddress = 0,
      VmmStack = 0,
      MsrBitmapVirtualAddress = 0, MsrBitmapPhysicalAddress = 0,
      IoBitmapVirtualAddressA = 0, IoBitmapPhysicalAddressA = 0,
      IoBitmapVirtualAddressB = 0, IoBitmapPhysicalAddressB = 0\<rparr>"

text \<open>A context that was used before: its field for I/O bitmap B still holds an address.\<close>

definition reused_context :: VIRTUAL_MACHINE_STATE where
  "reused_context = empty_context\<lparr>IoBitmapVirtualAddressB := 0xFFFF800000307000\<rparr>"

section \<open>Properties\<close>

subsection \<open>Rounding up to a page\<close>

lemma and_not_mask12: "(x::64 word) AND NOT (mask 12) = x - take_bit 12 x"
proof -
  have "x AND NOT (mask 12) = push_bit 12 (drop_bit 12 x)"
    by (rule bit_word_eqI) (auto simp: bit_simps)
  moreover have "push_bit 12 (drop_bit 12 x) + take_bit 12 x = x"
    by (rule bits_ident)
  ultimately show ?thesis
    by (metis add_diff_cancel_right')
qed

lemma unat_and_not_mask12:
  "unat ((x::64 word) AND NOT (mask 12)) = (unat x div 4096) * 4096"
proof -
  have "unat (take_bit 12 x) = take_bit 12 (unat x)"
    by (rule unsigned_take_bit_eq)
  also have "\<dots> = unat x mod 4096"
    by (simp add: take_bit_eq_mod)
  finally have t: "unat (take_bit 12 x) = unat x mod 4096" .
  have "unat (take_bit 12 x) \<le> unat x"
    unfolding t by (rule mod_less_eq_dividend)
  then have le: "take_bit 12 x \<le> x"
    by (simp only: word_le_nat_alt)
  have "unat (x - take_bit 12 x) = unat x - unat (take_bit 12 x)"
    by (rule unat_sub [OF le])
  also have "\<dots> = unat x - unat x mod 4096"
    by (simp only: t)
  also have "\<dots> = (unat x div 4096) * 4096"
    by (simp only: minus_mod_eq_div_mult)
  finally show ?thesis by (simp only: and_not_mask12)
qed

lemma aligned_address_mask: "aligned_address a = (a + 4095) AND NOT (mask 12)"
  by (simp add: aligned_address_def ALIGNMENT_PAGE_SIZE_def mask_eq_exp_minus_1 add.commute)

text \<open>The result is a multiple of 4096 for every input, also when the addition wraps.\<close>

lemma aligned_address_multiple: "unat (aligned_address a) mod 4096 = 0"
  by (simp only: aligned_address_mask unat_and_not_mask12) simp

lemma unat_aligned_address:
  assumes "unat a + 4095 < 2 ^ 64"
  shows "unat (aligned_address a) = ((unat a + 4095) div 4096) * 4096"
proof -
  have "unat a + unat (4095 :: 64 word) < 2 ^ LENGTH(64)"
    using assms by simp
  then have "unat (a + 4095) = unat a + unat (4095 :: 64 word)"
    by (rule unat_add_lem [THEN iffD1])
  then have "unat (a + 4095) = unat a + 4095" by simp
  then show ?thesis
    by (simp only: aligned_address_mask unat_and_not_mask12)
qed

lemma round_up_4096:
  fixes x :: nat
  defines "r \<equiv> ((x + 4095) div 4096) * 4096"
  shows "r mod 4096 = 0" and "x \<le> r" and "r \<le> x + 4095"
    and "\<And>m. m mod 4096 = 0 \<Longrightarrow> x \<le> m \<Longrightarrow> r \<le> m"
proof -
  show "r mod 4096 = 0" by (simp add: r_def)
  have a: "(x + 4095) div 4096 * 4096 + (x + 4095) mod 4096 = x + 4095"
    by (rule div_mult_mod_eq)
  have b: "(x + 4095) mod 4096 < 4096" by simp
  show "x \<le> r" using a b unfolding r_def by linarith
  show "r \<le> x + 4095" using a unfolding r_def by linarith
  fix m :: nat
  assume m: "m mod 4096 = 0" and xm: "x \<le> m"
  have "(x + 4095) div 4096 \<le> (m + 4095) div 4096"
    using xm by (intro div_le_mono) simp
  also have "(m + 4095) div 4096 = m div 4096"
  proof -
    have "m = 4096 * (m div 4096)" using m by (simp add: mod_eq_0_iff_dvd)
    then obtain k where "m = 4096 * k" ..
    then show ?thesis by simp
  qed
  finally have "r \<le> m div 4096 * 4096"
    unfolding r_def by (rule mult_le_mono1)
  also have "\<dots> = m" using m by (simp add: mod_eq_0_iff_dvd)
  finally show "r \<le> m" .
qed

subsection \<open>Memory\<close>

lemma ucast_ucast_8: "(ucast (ucast (y::64 word) :: 8 word) :: 64 word) = take_bit 8 y"
  by (rule bit_word_eqI) (auto simp: bit_simps)

lemma take_bit_split:
  "take_bit (m + n) (x::64 word) = take_bit m x + push_bit m (take_bit n (drop_bit m x))"
proof -
  have "push_bit m (drop_bit m (take_bit (m + n) x)) + take_bit m (take_bit (m + n) x)
          = take_bit (m + n) x"
    by (rule bits_ident)
  moreover have "take_bit m (take_bit (m + n) x) = take_bit m x"
    by simp
  moreover have "drop_bit m (take_bit (m + n) x) = take_bit n (drop_bit m x)"
    by (simp add: drop_bit_take_bit)
  ultimately show ?thesis by (simp add: add.commute)
qed

lemma horner_bytes:
  "horner_sum ucast (2 ^ 8) (map (\<lambda>k. ucast (drop_bit (8 * k) (v::64 word)) :: 8 word) [0..<n])
     = (take_bit (8 * n) v :: 64 word)"
proof (induction n)
  case 0
  show ?case by simp
next
  case (Suc n)
  have "take_bit (8 * Suc n) v = take_bit (8 * n + 8) v" by (simp add: add.commute)
  also have "\<dots> = take_bit (8 * n) v + push_bit (8 * n) (take_bit 8 (drop_bit (8 * n) v))"
    by (rule take_bit_split)
  finally show ?case
    using Suc by (simp add: horner_sum_append ucast_ucast_8 push_bit_eq_mult power_mult)
qed

lemma write_u64_at: "k < 8 \<Longrightarrow> write_u64 a v m (a + of_nat k) = ucast (drop_bit (8 * k) v)"
  by (simp add: write_u64_def unat_of_nat)

lemma read_write_u64: "read_u64 (write_u64 a v m) a = v"
proof -
  have "map (\<lambda>k. write_u64 a v m (a + of_nat k)) [0..<8]
          = map (\<lambda>k. ucast (drop_bit (8 * k) v)) [0..<8]"
    by (rule map_cong) (simp_all add: write_u64_at)
  then have "read_u64 (write_u64 a v m) a = take_bit (8 * 8) v"
    unfolding read_u64_def by (simp only: horner_bytes)
  then show ?thesis by (simp add: take_bit_word_eq_self)
qed

lemma raise_irql_fields [simp]:
  "alloc_calls (raise_irql p s) = alloc_calls s"
  "memory (raise_irql p s) = memory s"
  "blocks (raise_irql p s) = blocks s"
  "logged (raise_irql p s) = logged s"
  by (simp_all add: raise_irql_def)

lemma emit_fields [simp]:
  "alloc_calls (emit e s) = alloc_calls s"
  "memory (emit e s) = memory s"
  "blocks (emit e s) = blocks s"
  "logged (emit e s) = logged s @ [e]"
  "irql (emit e s) = irql s"
  by (simp_all add: emit_def)

lemma Crs_alloc:
  "CrsAllocateContiguousZeroedMemory p n s =
     (if allocator p (alloc_calls s) n = 0 then (0, s\<lparr>alloc_calls := Suc (alloc_calls s)\<rparr>)
      else (allocator p (alloc_calls s) n,
            s\<lparr>alloc_calls := Suc (alloc_calls s),
              memory := RtlZeroMemory (allocator p (alloc_calls s) n) n (memory s),
              blocks := (allocator p (alloc_calls s) n, n) # blocks s\<rparr>))"
  by (simp add: CrsAllocateContiguousZeroedMemory_def Let_def)

lemma Ex_alloc:
  "ExAllocatePoolWithTag p n s =
     (if allocator p (alloc_calls s) n = 0 then (0, s\<lparr>alloc_calls := Suc (alloc_calls s)\<rparr>)
      else (allocator p (alloc_calls s) n,
            s\<lparr>alloc_calls := Suc (alloc_calls s),
              blocks := (allocator p (alloc_calls s) n, n) # blocks s\<rparr>))"
  by (simp add: ExAllocatePoolWithTag_def Let_def)

subsection \<open>The two region allocators, path by path\<close>

lemma Vmxon_alloc_failed:
  assumes "allocator p (alloc_calls s) (2 * VMXON_SIZE p + ALIGNMENT_PAGE_SIZE) = 0"
  shows "VmxAllocateVmxonRegion p VCpu s =
           Some (False, VCpu,
             emit (LogError ''Err, couldn't allocate buffer for VMXON region'' [])
               (raise_irql p s\<lparr>alloc_calls := Suc (alloc_calls s)\<rparr>))"
  using assms by (simp add: VmxAllocateVmxonRegion_def Crs_alloc Let_def)

lemma Vmxon_returns:
  assumes "allocator p (alloc_calls s) (2 * VMXON_SIZE p + ALIGNMENT_PAGE_SIZE) = buf"
    and "buf \<noteq> 0"
    and "readmsr p IA32_VMX_BASIC = Some msr"
  shows "\<exists>s'. VmxAllocateVmxonRegion p VCpu s =
           Some (vmx_on p (aligned_address (VirtualAddressToPhysicalAddress p buf)) = 0,
                 (if vmx_on p (aligned_address (VirtualAddressToPhysicalAddress p buf)) = 0
                  then VCpu\<lparr>VmxonRegionPhysicalAddress :=
                               aligned_address (VirtualAddressToPhysicalAddress p buf),
                            VmxonRegionVirtualAddress := buf\<rparr>
                  else VCpu), s')
         \<and> memory s' = write_u64 (aligned_address buf) (VmcsRevisionId msr)
              (RtlZeroMemory buf (2 * VMXON_SIZE p + ALIGNMENT_PAGE_SIZE) (memory s))
         \<and> blocks s' = (buf, 2 * VMXON_SIZE p + ALIGNMENT_PAGE_SIZE) # blocks s
         \<and> (vmx_on p (aligned_address (VirtualAddressToPhysicalAddress p buf)) \<noteq> 0 \<longrightarrow>
              last (logged s') = LogError
                 ''Err, executing vmxon instruction failed with status : %d''
                 [ucast (vmx_on p (aligned_address (VirtualAddressToPhysicalAddress p buf)))])"
  using assms by (simp add: VmxAllocateVmxonRegion_def Crs_alloc Let_def)

lemma Vmxon_success_inv:
  assumes "VmxAllocateVmxonRegion p VCpu s = Some (True, V', s')"
  shows "\<exists>msr. readmsr p IA32_VMX_BASIC = Some msr
       \<and> allocator p (alloc_calls s) (2 * VMXON_SIZE p + ALIGNMENT_PAGE_SIZE) \<noteq> 0
       \<and> V' = VCpu\<lparr>VmxonRegionPhysicalAddress :=
                     aligned_address (VirtualAddressToPhysicalAddress p
                       (allocator p (alloc_calls s) (2 * VMXON_SIZE p + ALIGNMENT_PAGE_SIZE))),
                   VmxonRegionVirtualAddress :=
                     allocator p (alloc_calls s) (2 * VMXON_SIZE p + ALIGNMENT_PAGE_SIZE)\<rparr>
       \<and> memory s' = write_u64
            (aligned_address (allocator p (alloc_calls s) (2 * VMXON_SIZE p + ALIGNMENT_PAGE_SIZE)))
            (VmcsRevisionId msr)
            (RtlZeroMemory (allocator p (alloc_calls s) (2 * VMXON_SIZE p + ALIGNMENT_PAGE_SIZE))
               (2 * VMXON_SIZE p + ALIGNMENT_PAGE_SIZE) (memory s))"
  using assms
  by (auto simp: VmxAllocateVmxonRegion_def Crs_alloc Let_def split: if_splits option.splits)

lemma Vmcs_alloc_failed:
  assumes "allocator p (alloc_calls s) (2 * VMCS_SIZE p + ALIGNMENT_PAGE_SIZE) = 0"
  shows "VmxAllocateVmcsRegion p VCpu s =
           Some (False, VCpu,
             emit (LogError ''Err, couldn't allocate Buffer for VMCS region'' [])
               (raise_irql p s\<lparr>alloc_calls := Suc (alloc_calls s)\<rparr>))"
  using assms by (simp add: VmxAllocateVmcsRegion_def Crs_alloc Let_def)

lemma Vmcs_returns:
  assumes "allocator p (alloc_calls s) (2 * VMCS_SIZE p + ALIGNMENT_PAGE_SIZE) = buf"
    and "buf \<noteq> 0"
    and "readmsr p IA32_VMX_BASIC = Some msr"
  shows "\<exists>s'. VmxAllocateVmcsRegion p VCpu s =
           Some (True,
                 VCpu\<lparr>VmcsRegionPhysicalAddress :=
                         aligned_address (VirtualAddressToPhysicalAddress p buf),
                      VmcsRegionVirtualAddress := buf\<rparr>, s')
         \<and> memory s' = write_u64 (aligned_address buf) (VmcsRevisionId msr)
              (RtlZeroMemory buf (2 * VMCS_SIZE p + ALIGNMENT_PAGE_SIZE) (memory s))
         \<and> blocks s' = (buf, 2 * VMCS_SIZE p + ALIGNMENT_PAGE_SIZE) # blocks s"
  using assms by (simp add: VmxAllocateVmcsRegion_def Crs_alloc Let_def)

lemma Vmcs_success_inv:
  assumes "VmxAllocateVmcsRegion p VCpu s = Some (True, V', s')"
  shows "\<exists>msr. readmsr p IA32_VMX_BASIC = Some msr
       \<and> allocator p (alloc_calls s) (2 * VMCS_SIZE p + ALIGNMENT_PAGE_SIZE) \<noteq> 0
       \<and> V' = VCpu\<lparr>VmcsRegionPhysicalAddress :=
                     aligned_address (VirtualAddressToPhysicalAddress p
                       (allocator p (alloc_calls s) (2 * VMCS_SIZE p + ALIGNMENT_PAGE_SIZE))),
                   VmcsRegionVirtualAddress :=
                     allocator p (alloc_calls s) (2 * VMCS_SIZE p + ALIGNMENT_PAGE_SIZE)\<rparr>
       \<and> memory s' = write_u64
            (aligned_address (allocator p (alloc_calls s) (2 * VMCS_SIZE p + ALIGNMENT_PAGE_SIZE)))
            (VmcsRevisionId msr)
            (RtlZeroMemory (allocator p (alloc_calls s) (2 * VMCS_SIZE p + ALIGNMENT_PAGE_SIZE))
               (2 * VMCS_SIZE p + ALIGNMENT_PAGE_SIZE) (memory s))"
  using assms
  by (auto simp: VmxAllocateVmcsRegion_def Crs_alloc Let_def split: if_splits option.splits)

subsection \<open>The auxiliary allocators, path by path\<close>

lemma VmmStack_alloc_failed:
  assumes "allocator p (alloc_calls s) (VMM_STACK_SIZE p) = 0"
  shows "\<exists>s'. VmxAllocateVmmStack p VCpu s = (False, VCpu\<lparr>VmmStack := 0\<rparr>, s')"
  using assms by (simp add: VmxAllocateVmmStack_def Ex_alloc Let_def)

lemma MsrBitmap_alloc_failed:
  assumes "allocator p (alloc_calls s) PAGE_SIZE = 0"
  shows "\<exists>s'. VmxAllocateMsrBitmap p VCpu s =
           (False, VCpu\<lparr>MsrBitmapVirtualAddress := 0\<rparr>, s')"
  using assms by (simp add: VmxAllocateMsrBitmap_def Ex_alloc Let_def)

lemma IoBitmaps_A_failed:
  assumes "allocator p (alloc_calls s) PAGE_SIZE = 0"
  shows "\<exists>s'. VmxAllocateIoBitmaps p VCpu s =
           (False, VCpu\<lparr>IoBitmapVirtualAddressA := 0\<rparr>, s')"
  using assms by (simp add: VmxAllocateIoBitmaps_def Ex_alloc Let_def)

lemma IoBitmaps_B_failed:
  assumes "allocator p (alloc_calls s) PAGE_SIZE = a" and "a \<noteq> 0"
    and "allocator p (Suc (alloc_calls s)) PAGE_SIZE = 0"
  shows "\<exists>s'. VmxAllocateIoBitmaps p VCpu s =
           (False,
            VCpu\<lparr>IoBitmapVirtualAddressA := a,
                 IoBitmapPhysicalAddressA := VirtualAddressToPhysicalAddress p a,
                 IoBitmapVirtualAddressB := 0\<rparr>, s')"
  using assms by (simp add: VmxAllocateIoBitmaps_def Ex_alloc Let_def)

subsection \<open>The probing loop\<close>

lemma byte_offset_inj:
  assumes "i < 2 ^ 64" "j < 2 ^ 64"
  shows "((a::64 word) + of_nat i = a + of_nat j) \<longleftrightarrow> i = j"
proof -
  have i: "unat (of_nat i :: 64 word) = i" using assms by (simp add: unat_of_nat)
  have j: "unat (of_nat j :: 64 word) = j" using assms by (simp add: unat_of_nat)
  have "(of_nat i :: 64 word) = of_nat j \<longleftrightarrow> i = j"
    using i j by metis
  then show ?thesis by simp
qed

lemma bit_or_one_shift:
  "k < 8 \<Longrightarrow> bit ((x::8 word) OR 2 ^ k') k \<longleftrightarrow> bit x k \<or> k = k'"
  by (auto simp: bit_or_iff bit_exp_iff)

lemma TestBit_SetBit:
  assumes "i < 0x1000" "j < 0x1000"
  shows "TestBit j b (SetBit i b m) \<longleftrightarrow> j = i \<or> TestBit j b m"
proof (cases "j div 8 = i div 8")
  case True
  have "j = i \<longleftrightarrow> j mod 8 = i mod 8"
    using True by (metis div_mult_mod_eq)
  then show ?thesis
    using True by (auto simp: TestBit_def SetBit_def bit_or_one_shift)
next
  case False
  have i8: "i div 8 < 2 ^ 64" and j8: "j div 8 < 2 ^ 64" using assms by simp_all
  have "b + of_nat (j div 8) \<noteq> b + of_nat (i div 8)"
    using byte_offset_inj [OF j8 i8, of b] False by blast
  moreover have "j \<noteq> i" using False by auto
  ultimately show ?thesis
    by (simp add: TestBit_def SetBit_def)
qed

lemma probe_from_bit:
  "j < 0x1000 \<Longrightarrow>
   TestBit j b (probe_from p b i m) \<longleftrightarrow>
     (i \<le> j \<and> readmsr p (of_nat j) = None) \<or> TestBit j b m"
proof (induction p b i m rule: probe_from.induct)
  case (1 p b i m)
  show ?case
  proof (cases "i < 0x1000")
    case False
    with "1.prems" show ?thesis by (simp add: probe_from.simps)
  next
    case True
    let ?m' = "case readmsr p (of_nat i) of None \<Rightarrow> SetBit i b m | Some v \<Rightarrow> m"
    have step: "probe_from p b i m = probe_from p b (i + 1) ?m'"
      using True by (subst probe_from.simps) simp
    have IH: "TestBit j b (probe_from p b (i + 1) ?m') \<longleftrightarrow>
                (i + 1 \<le> j \<and> readmsr p (of_nat j) = None) \<or> TestBit j b ?m'"
      using "1.IH" [OF True "1.prems"] .
    have here: "TestBit j b ?m' \<longleftrightarrow> (j = i \<and> readmsr p (of_nat i) = None) \<or> TestBit j b m"
      using True "1.prems" by (simp add: TestBit_SetBit split: option.split)
    show ?thesis
      unfolding step IH here by (auto simp: le_less Suc_le_eq)
  qed
qed

lemma SetBit_frame:
  assumes i: "i < 0x1000" and far: "\<not> unat (a - b) < 512"
  shows "SetBit i b m a = m a"
proof -
  have "unat ((b + of_nat (i div 8)) - b) = i div 8"
    using i by (simp add: unat_of_nat)
  then have "a \<noteq> b + of_nat (i div 8)"
    using far i by auto
  then show ?thesis by (simp add: SetBit_def)
qed

lemma probe_from_frame:
  "\<not> unat (a - b) < 512 \<Longrightarrow> probe_from p b i m a = m a"
proof (induction p b i m rule: probe_from.induct)
  case (1 p b i m)
  show ?case
  proof (cases "i < 0x1000")
    case False
    then show ?thesis by (simp add: probe_from.simps)
  next
    case True
    let ?m' = "case readmsr p (of_nat i) of None \<Rightarrow> SetBit i b m | Some v \<Rightarrow> m"
    have step: "probe_from p b i m = probe_from p b (i + 1) ?m'"
      using True by (subst probe_from.simps) simp
    have "probe_from p b (i + 1) ?m' a = ?m' a"
      using "1.IH" [OF True "1.prems"] .
    moreover have "?m' a = m a"
      using True "1.prems" by (simp add: SetBit_frame split: option.split)
    ultimately show ?thesis unfolding step by simp
  qed
qed

lemma TestBit_zeroed:
  assumes "j < 0x1000"
  shows "\<not> TestBit j b (RtlZeroMemory b 512 m)"
proof -
  have "j div 8 < 512" using assms by simp
  then show ?thesis
    by (simp add: TestBit_def RtlZeroMemory_def unat_of_nat)
qed

lemma InvalidMsrBimap_null:
  assumes "allocator p (alloc_calls s) 512 = 0"
  shows "VmxAllocateInvalidMsrBimap p s = (0, s\<lparr>alloc_calls := Suc (alloc_calls s)\<rparr>)"
  using assms by (simp add: VmxAllocateInvalidMsrBimap_def Ex_alloc Let_def)

lemma InvalidMsrBimap_built:
  assumes "allocator p (alloc_calls s) 512 = b" and "b \<noteq> 0"
  shows "VmxAllocateInvalidMsrBimap p s =
           (b, s\<lparr>alloc_calls := Suc (alloc_calls s),
                 blocks := (b, 512) # blocks s,
                 memory := probe_from p b 0 (RtlZeroMemory b 512 (memory s))\<rparr>)"
  using assms by (simp add: VmxAllocateInvalidMsrBimap_def Ex_alloc Let_def)

lemma InvalidMsrBimap_bit:
  assumes "VmxAllocateInvalidMsrBimap p s = (b, s')" and "b \<noteq> 0" and "i < 0x1000"
  shows "TestBit i b (memory s') \<longleftrightarrow> readmsr p (of_nat i) = None"
proof -
  have a: "allocator p (alloc_calls s) 512 = b"
    using assms(1,2) InvalidMsrBimap_null [of p s]
      InvalidMsrBimap_built [of p s "allocator p (alloc_calls s) 512"]
    by (cases "allocator p (alloc_calls s) 512 = 0") auto
  have "memory s' = probe_from p b 0 (RtlZeroMemory b 512 (memory s))"
    using InvalidMsrBimap_built [OF a assms(2)] assms(1) by auto
  then show ?thesis
    using assms(3) by (simp add: probe_from_bit TestBit_zeroed)
qed

lemma InvalidMsrBimap_frame:
  assumes "VmxAllocateInvalidMsrBimap p s = (b, s')" and "\<not> unat (a - b) < 512"
  shows "memory s' a = memory s a"
proof (cases "allocator p (alloc_calls s) 512 = 0")
  case True
  then show ?thesis using assms(1) by (auto simp: InvalidMsrBimap_null)
next
  case False
  then have "b = allocator p (alloc_calls s) 512"
    and "memory s' = probe_from p b 0 (RtlZeroMemory b 512 (memory s))"
    using InvalidMsrBimap_built [OF refl False] assms(1) by auto
  then show ?thesis
    using assms(2) by (simp add: probe_from_frame RtlZeroMemory_def)
qed

section \<open>The claims\<close>

text \<open>
  C1.  \<^verbatim>\<open>VmxAllocateInvalidMsrBimap\<close> returns what the allocator returned for a request
  of 512 bytes, so it returns \<^verbatim>\<open>NULL\<close> exactly when that allocation fails.  Otherwise
  the block of 512 bytes is the bitmap, and for every index below 4096 the bit at that index
  is set if and only if the MSR read at that index faulted: each index is probed whatever
  happened at the indices before it.
\<close>

theorem VmxAllocateInvalidMsrBimap_bitmap:
  assumes "VmxAllocateInvalidMsrBimap p s = (InvalidMsrBitmap, s')"
  shows "InvalidMsrBitmap = allocator p (alloc_calls s) 512
       \<and> (InvalidMsrBitmap = 0 \<longleftrightarrow> allocator p (alloc_calls s) 512 = 0)
       \<and> (InvalidMsrBitmap \<noteq> 0 \<longrightarrow>
            blocks s' = (InvalidMsrBitmap, 512) # blocks s
          \<and> (\<forall>i<4096. TestBit i InvalidMsrBitmap (memory s') \<longleftrightarrow>
                          readmsr p (of_nat i) = None))"
proof -
  have ptr: "InvalidMsrBitmap = allocator p (alloc_calls s) 512"
    using assms InvalidMsrBimap_null [of p s] InvalidMsrBimap_built [OF refl, of p s]
    by (cases "allocator p (alloc_calls s) 512 = 0") auto
  have blk: "blocks s' = (InvalidMsrBitmap, 512) # blocks s" if "InvalidMsrBitmap \<noteq> 0"
    using that assms InvalidMsrBimap_built [OF ptr [symmetric]] by auto
  have bits: "TestBit i InvalidMsrBitmap (memory s') \<longleftrightarrow> readmsr p (of_nat i) = None"
    if "InvalidMsrBitmap \<noteq> 0" and "i < 4096" for i
    using InvalidMsrBimap_bit [OF assms that(1)] that(2) by simp
  show ?thesis using ptr blk bits by auto
qed

theorem VmxAllocateInvalidMsrBimap_bitmap_witness:
  "fst (VmxAllocateInvalidMsrBimap test_platform boot_machine) = 0xFFFF800000100010
   \<and> blocks (snd (VmxAllocateInvalidMsrBimap test_platform boot_machine))
        = [(0xFFFF800000100010, 512)]
   \<and> TestBit 5 (fst (VmxAllocateInvalidMsrBimap test_platform boot_machine))
        (memory (snd (VmxAllocateInvalidMsrBimap test_platform boot_machine)))
   \<and> \<not> TestBit 6 (fst (VmxAllocateInvalidMsrBimap test_platform boot_machine))
        (memory (snd (VmxAllocateInvalidMsrBimap test_platform boot_machine)))"
proof -
  note t = VmxAllocateInvalidMsrBimap_bitmap [OF surjective_pairing,
      of test_platform boot_machine]
  have a: "allocator test_platform (alloc_calls boot_machine) 512 = 0xFFFF800000100010"
    by (simp add: test_platform_def boot_machine_def)
  have b: "blocks boot_machine = []" by (simp add: boot_machine_def)
  have r5: "readmsr test_platform (of_nat 5) = None"
    and r6: "readmsr test_platform (of_nat 6) \<noteq> None"
    by (simp_all add: test_platform_def)
  have p: "fst (VmxAllocateInvalidMsrBimap test_platform boot_machine) = 0xFFFF800000100010"
    using t a by simp
  then have nz: "fst (VmxAllocateInvalidMsrBimap test_platform boot_machine) \<noteq> 0" by simp
  from t nz have
    "blocks (snd (VmxAllocateInvalidMsrBimap test_platform boot_machine))
       = (fst (VmxAllocateInvalidMsrBimap test_platform boot_machine), 512) # blocks boot_machine"
    and q: "\<forall>i<4096. TestBit i (fst (VmxAllocateInvalidMsrBimap test_platform boot_machine))
              (memory (snd (VmxAllocateInvalidMsrBimap test_platform boot_machine)))
            \<longleftrightarrow> readmsr test_platform (of_nat i) = None"
    by blast+
  moreover have "(5::nat) < 4096" "(6::nat) < 4096" by simp_all
  ultimately show ?thesis using p b r5 r6 by metis
qed

text \<open>
  C2.  After a successful \<^verbatim>\<open>VmxAllocateVmxonRegion\<close>, and after a successful
  \<^verbatim>\<open>VmxAllocateVmcsRegion\<close>, the 64-bit value at offset 0 of the aligned region is the
  low 31 bits of the value the capability register \<^verbatim>\<open>IA32_VMX_BASIC\<close> had in that call.
  When those bits are \<open>0x1F\<close>, the first 8 bytes of the VMCS region read as 31.
\<close>

theorem revision_identifier_stamped:
  assumes "readmsr p IA32_VMX_BASIC = Some msr"
  shows "(VmxAllocateVmxonRegion p VCpu s = Some (True, V', s') \<longrightarrow>
            read_u64 (memory s') (aligned_address (VmxonRegionVirtualAddress V'))
              = take_bit 31 msr)
       \<and> (VmxAllocateVmcsRegion p VCpu s = Some (True, W', t') \<longrightarrow>
            read_u64 (memory t') (aligned_address (VmcsRegionVirtualAddress W'))
              = take_bit 31 msr
          \<and> (take_bit 31 msr = 0x1F \<longrightarrow>
               read_u64 (memory t') (aligned_address (VmcsRegionVirtualAddress W')) = 31))"
proof -
  have "read_u64 (memory s') (aligned_address (VmxonRegionVirtualAddress V')) = take_bit 31 msr"
    if "VmxAllocateVmxonRegion p VCpu s = Some (True, V', s')"
    using Vmxon_success_inv [OF that] assms
    by (auto simp: read_write_u64 VmcsRevisionId_def)
  moreover
  have "read_u64 (memory t') (aligned_address (VmcsRegionVirtualAddress W')) = take_bit 31 msr"
    if "VmxAllocateVmcsRegion p VCpu s = Some (True, W', t')"
    using Vmcs_success_inv [OF that] assms
    by (auto simp: read_write_u64 VmcsRevisionId_def)
  ultimately show ?thesis by simp
qed

theorem revision_identifier_stamped_witness:
  "readmsr test_platform IA32_VMX_BASIC = Some 0xDA04000000001F
   \<and> (\<exists>V' s'. VmxAllocateVmxonRegion test_platform empty_context boot_machine
                  = Some (True, V', s')
             \<and> read_u64 (memory s') (aligned_address (VmxonRegionVirtualAddress V')) = 31)
   \<and> (\<exists>W' t'. VmxAllocateVmcsRegion test_platform empty_context boot_machine
                  = Some (True, W', t')
             \<and> read_u64 (memory t') (aligned_address (VmcsRegionVirtualAddress W')) = 31)"
proof -
  have m: "readmsr test_platform IA32_VMX_BASIC = Some 0xDA04000000001F"
    by (simp add: test_platform_def IA32_VMX_BASIC_def)
  have low: "take_bit 31 (0xDA04000000001F :: 64 word) = 31"
    by (simp add: take_bit_eq_mod)
  have von: "vmx_on test_platform x = 0" for x by (simp add: test_platform_def)
  have a1: "allocator test_platform (alloc_calls boot_machine)
              (2 * VMXON_SIZE test_platform + ALIGNMENT_PAGE_SIZE) \<noteq> 0"
    and a2: "allocator test_platform (alloc_calls boot_machine)
              (2 * VMCS_SIZE test_platform + ALIGNMENT_PAGE_SIZE) \<noteq> 0"
    by (simp_all add: test_platform_def boot_machine_def)
  obtain V' s' where
    1: "VmxAllocateVmxonRegion test_platform empty_context boot_machine = Some (True, V', s')"
    using Vmxon_returns [OF refl a1 m, of empty_context] von by auto
  obtain W' t' where
    2: "VmxAllocateVmcsRegion test_platform empty_context boot_machine = Some (True, W', t')"
    using Vmcs_returns [OF refl a2 m, of empty_context] by auto
  note t = revision_identifier_stamped [OF m, of empty_context boot_machine V' s' W' t']
  show ?thesis using t 1 2 m low by auto
qed

lemma aligned_address_round_up:
  assumes fits: "unat a + (2 * n + ALIGNMENT_PAGE_SIZE) \<le> 2 ^ 64"
  shows "unat (aligned_address a) mod 4096 = 0
    \<and> unat a \<le> unat (aligned_address a)
    \<and> (\<forall>m. m mod 4096 = 0 \<and> unat a \<le> m \<longrightarrow> unat (aligned_address a) \<le> m)
    \<and> unat (aligned_address a) - unat a < 4096
    \<and> unat (aligned_address a) + 2 * n \<le> unat a + (2 * n + ALIGNMENT_PAGE_SIZE)"
proof -
  have u: "unat (aligned_address a) = ((unat a + 4095) div 4096) * 4096"
    using fits by (intro unat_aligned_address) (simp add: ALIGNMENT_PAGE_SIZE_def)
  have r1: "unat (aligned_address a) mod 4096 = 0"
    unfolding u by (rule round_up_4096(1))
  have r2: "unat a \<le> unat (aligned_address a)"
    unfolding u by (rule round_up_4096(2))
  have r3: "unat (aligned_address a) \<le> unat a + 4095"
    unfolding u by (rule round_up_4096(3))
  have r4: "\<forall>m. m mod 4096 = 0 \<and> unat a \<le> m \<longrightarrow> unat (aligned_address a) \<le> m"
    unfolding u by (intro allI impI, elim conjE) (rule round_up_4096(4))
  have r5: "unat (aligned_address a) - unat a < 4096" using r3 by linarith
  have r6: "unat (aligned_address a) + 2 * n \<le> unat a + (2 * n + ALIGNMENT_PAGE_SIZE)"
    using r3 by (simp add: ALIGNMENT_PAGE_SIZE_def)
  show ?thesis using r1 r2 r4 r5 r6 by (intro conjI)
qed

text \<open>What a successful call leaves behind: the three diagnostics, with the two rounded
  addresses the function computed, and the buffer as the latest block.\<close>

lemma Vmxon_success_state:
  assumes "VmxAllocateVmxonRegion p VCpu s = Some (True, V', s')"
    and "allocator p (alloc_calls s) (2 * VMXON_SIZE p + ALIGNMENT_PAGE_SIZE) = buf"
  shows "\<exists>msr. readmsr p IA32_VMX_BASIC = Some msr
       \<and> logged s' = logged s @
            [LogDebugInfo ''VMXON Region Address : %llx'' [aligned_address buf],
             LogDebugInfo ''VMXON Region Physical Address : %llx''
               [aligned_address (VirtualAddressToPhysicalAddress p buf)],
             LogDebugInfo ''Revision Identifier (IA32_VMX_BASIC - MSR 0x480) : 0x%x''
               [take_bit 31 msr]]
       \<and> blocks s' = (buf, 2 * VMXON_SIZE p + ALIGNMENT_PAGE_SIZE) # blocks s
       \<and> memory s' = write_u64 (aligned_address buf) (take_bit 31 msr)
            (RtlZeroMemory buf (2 * VMXON_SIZE p + ALIGNMENT_PAGE_SIZE) (memory s))
       \<and> VmxonRegionPhysicalAddress V'
            = aligned_address (VirtualAddressToPhysicalAddress p buf)
       \<and> VmxonRegionVirtualAddress V' = buf"
  using assms
  by (auto simp: VmxAllocateVmxonRegion_def Crs_alloc Let_def VmcsRevisionId_def
           split: if_splits option.splits)

lemma Vmcs_success_state:
  assumes "VmxAllocateVmcsRegion p VCpu s = Some (True, V', s')"
    and "allocator p (alloc_calls s) (2 * VMCS_SIZE p + ALIGNMENT_PAGE_SIZE) = buf"
  shows "\<exists>msr. readmsr p IA32_VMX_BASIC = Some msr
       \<and> logged s' = logged s @
            [LogDebugInfo ''VMCS region address : %llx'' [aligned_address buf],
             LogDebugInfo ''VMCS region physical address : %llx''
               [aligned_address (VirtualAddressToPhysicalAddress p buf)],
             LogDebugInfo ''Revision Identifier (IA32_VMX_BASIC - MSR 0x480) : 0x%x''
               [take_bit 31 msr]]
       \<and> blocks s' = (buf, 2 * VMCS_SIZE p + ALIGNMENT_PAGE_SIZE) # blocks s
       \<and> memory s' = write_u64 (aligned_address buf) (take_bit 31 msr)
            (RtlZeroMemory buf (2 * VMCS_SIZE p + ALIGNMENT_PAGE_SIZE) (memory s))
       \<and> VmcsRegionPhysicalAddress V'
            = aligned_address (VirtualAddressToPhysicalAddress p buf)
       \<and> VmcsRegionVirtualAddress V' = buf"
  using assms
  by (auto simp: VmxAllocateVmcsRegion_def Crs_alloc Let_def VmcsRevisionId_def
           split: if_splits option.splits)

text \<open>
  C3.  Take a successful call of \<^verbatim>\<open>VmxAllocateVmxonRegion\<close> or of
  \<^verbatim>\<open>VmxAllocateVmcsRegion\<close> whose buffer of \<open>2 * region-size + page-size\<close> bytes lies
  in the 64-bit address space, at its virtual and at its physical start address.  The
  function has allocated that buffer, and it has computed two aligned addresses: the
  working address, which it logs and at which it stores the revision identifier, and the
  physical address, which it logs and stores in the context.  Each is
  \<^verbatim>\<open>(start + 4095) & ~4095\<close> of its start address, is a multiple of 4096, is not below
  the start, and no multiple of 4096 from the start on is smaller.  Each lies less than a
  page beyond its start, so a region of \<open>2 * region-size\<close> bytes from it on ends inside
  the buffer.
\<close>

theorem region_allocators_aligned_addresses:
  "(VmxAllocateVmxonRegion p VCpu s = Some (True, V', s')
      \<and> allocator p (alloc_calls s) (2 * VMXON_SIZE p + ALIGNMENT_PAGE_SIZE) = buf
      \<and> VirtualAddressToPhysicalAddress p buf = phys
      \<and> unat buf + (2 * VMXON_SIZE p + ALIGNMENT_PAGE_SIZE) \<le> 2 ^ 64
      \<and> unat phys + (2 * VMXON_SIZE p + ALIGNMENT_PAGE_SIZE) \<le> 2 ^ 64
    \<longrightarrow> (\<exists>A msr.
          A = aligned_address buf
        \<and> VmxonRegionPhysicalAddress V' = aligned_address phys
        \<and> readmsr p IA32_VMX_BASIC = Some msr
        \<and> logged s' = logged s @
             [LogDebugInfo ''VMXON Region Address : %llx'' [A],
              LogDebugInfo ''VMXON Region Physical Address : %llx''
                [VmxonRegionPhysicalAddress V'],
              LogDebugInfo ''Revision Identifier (IA32_VMX_BASIC - MSR 0x480) : 0x%x''
                [take_bit 31 msr]]
        \<and> read_u64 (memory s') A = take_bit 31 msr
        \<and> blocks s' = (buf, 2 * VMXON_SIZE p + ALIGNMENT_PAGE_SIZE) # blocks s
        \<and> unat A mod 4096 = 0
        \<and> unat buf \<le> unat A
        \<and> (\<forall>m. m mod 4096 = 0 \<and> unat buf \<le> m \<longrightarrow> unat A \<le> m)
        \<and> unat A - unat buf < 4096
        \<and> unat A + 2 * VMXON_SIZE p
             \<le> unat buf + (2 * VMXON_SIZE p + ALIGNMENT_PAGE_SIZE)
        \<and> unat (VmxonRegionPhysicalAddress V') mod 4096 = 0
        \<and> unat phys \<le> unat (VmxonRegionPhysicalAddress V')
        \<and> (\<forall>m. m mod 4096 = 0 \<and> unat phys \<le> m
               \<longrightarrow> unat (VmxonRegionPhysicalAddress V') \<le> m)
        \<and> unat (VmxonRegionPhysicalAddress V') - unat phys < 4096
        \<and> unat (VmxonRegionPhysicalAddress V') + 2 * VMXON_SIZE p
             \<le> unat phys + (2 * VMXON_SIZE p + ALIGNMENT_PAGE_SIZE)))
   \<and> (VmxAllocateVmcsRegion p VCpu s = Some (True, W', t')
      \<and> allocator p (alloc_calls s) (2 * VMCS_SIZE p + ALIGNMENT_PAGE_SIZE) = buf
      \<and> VirtualAddressToPhysicalAddress p buf = phys
      \<and> unat buf + (2 * VMCS_SIZE p + ALIGNMENT_PAGE_SIZE) \<le> 2 ^ 64
      \<and> unat phys + (2 * VMCS_SIZE p + ALIGNMENT_PAGE_SIZE) \<le> 2 ^ 64
    \<longrightarrow> (\<exists>A msr.
          A = aligned_address buf
        \<and> VmcsRegionPhysicalAddress W' = aligned_address phys
        \<and> readmsr p IA32_VMX_BASIC = Some msr
        \<and> logged t' = logged s @
             [LogDebugInfo ''VMCS region address : %llx'' [A],
              LogDebugInfo ''VMCS region physical address : %llx''
                [VmcsRegionPhysicalAddress W'],
              LogDebugInfo ''Revision Identifier (IA32_VMX_BASIC - MSR 0x480) : 0x%x''
                [take_bit 31 msr]]
        \<and> read_u64 (memory t') A = take_bit 31 msr
        \<and> blocks t' = (buf, 2 * VMCS_SIZE p + ALIGNMENT_PAGE_SIZE) # blocks s
        \<and> unat A mod 4096 = 0
        \<and> unat buf \<le> unat A
        \<and> (\<forall>m. m mod 4096 = 0 \<and> unat buf \<le> m \<longrightarrow> unat A \<le> m)
        \<and> unat A - unat buf < 4096
        \<and> unat A + 2 * VMCS_SIZE p
             \<le> unat buf + (2 * VMCS_SIZE p + ALIGNMENT_PAGE_SIZE)
        \<and> unat (VmcsRegionPhysicalAddress W') mod 4096 = 0
        \<and> unat phys \<le> unat (VmcsRegionPhysicalAddress W')
        \<and> (\<forall>m. m mod 4096 = 0 \<and> unat phys \<le> m
               \<longrightarrow> unat (VmcsRegionPhysicalAddress W') \<le> m)
        \<and> unat (VmcsRegionPhysicalAddress W') - unat phys < 4096
        \<and> unat (VmcsRegionPhysicalAddress W') + 2 * VMCS_SIZE p
             \<le> unat phys + (2 * VMCS_SIZE p + ALIGNMENT_PAGE_SIZE)))"
proof (intro conjI impI; elim conjE)
  assume ok: "VmxAllocateVmxonRegion p VCpu s = Some (True, V', s')"
    and b: "allocator p (alloc_calls s) (2 * VMXON_SIZE p + ALIGNMENT_PAGE_SIZE) = buf"
    and ph: "VirtualAddressToPhysicalAddress p buf = phys"
    and fv: "unat buf + (2 * VMXON_SIZE p + ALIGNMENT_PAGE_SIZE) \<le> 2 ^ 64"
    and fp: "unat phys + (2 * VMXON_SIZE p + ALIGNMENT_PAGE_SIZE) \<le> 2 ^ 64"
  from Vmxon_success_state [OF ok b] obtain msr where
    m: "readmsr p IA32_VMX_BASIC = Some msr"
    and l: "logged s' = logged s @
            [LogDebugInfo ''VMXON Region Address : %llx'' [aligned_address buf],
             LogDebugInfo ''VMXON Region Physical Address : %llx''
               [aligned_address (VirtualAddressToPhysicalAddress p buf)],
             LogDebugInfo ''Revision Identifier (IA32_VMX_BASIC - MSR 0x480) : 0x%x''
               [take_bit 31 msr]]"
    and k: "blocks s' = (buf, 2 * VMXON_SIZE p + ALIGNMENT_PAGE_SIZE) # blocks s"
    and w: "memory s' = write_u64 (aligned_address buf) (take_bit 31 msr)
            (RtlZeroMemory buf (2 * VMXON_SIZE p + ALIGNMENT_PAGE_SIZE) (memory s))"
    and P: "VmxonRegionPhysicalAddress V'
            = aligned_address (VirtualAddressToPhysicalAddress p buf)"
    by blast
  have P': "VmxonRegionPhysicalAddress V' = aligned_address phys"
    using P ph by simp
  have rd: "read_u64 (memory s') (aligned_address buf) = take_bit 31 msr"
    unfolding w by (rule read_write_u64)
  note va = aligned_address_round_up [OF fv]
  note pa = aligned_address_round_up [OF fp, folded P']
  show "\<exists>A msr.
          A = aligned_address buf
        \<and> VmxonRegionPhysicalAddress V' = aligned_address phys
        \<and> readmsr p IA32_VMX_BASIC = Some msr
        \<and> logged s' = logged s @
             [LogDebugInfo ''VMXON Region Address : %llx'' [A],
              LogDebugInfo ''VMXON Region Physical Address : %llx''
                [VmxonRegionPhysicalAddress V'],
              LogDebugInfo ''Revision Identifier (IA32_VMX_BASIC - MSR 0x480) : 0x%x''
                [take_bit 31 msr]]
        \<and> read_u64 (memory s') A = take_bit 31 msr
        \<and> blocks s' = (buf, 2 * VMXON_SIZE p + ALIGNMENT_PAGE_SIZE) # blocks s
        \<and> unat A mod 4096 = 0
        \<and> unat buf \<le> unat A
        \<and> (\<forall>m. m mod 4096 = 0 \<and> unat buf \<le> m \<longrightarrow> unat A \<le> m)
        \<and> unat A - unat buf < 4096
        \<and> unat A + 2 * VMXON_SIZE p
             \<le> unat buf + (2 * VMXON_SIZE p + ALIGNMENT_PAGE_SIZE)
        \<and> unat (VmxonRegionPhysicalAddress V') mod 4096 = 0
        \<and> unat phys \<le> unat (VmxonRegionPhysicalAddress V')
        \<and> (\<forall>m. m mod 4096 = 0 \<and> unat phys \<le> m
               \<longrightarrow> unat (VmxonRegionPhysicalAddress V') \<le> m)
        \<and> unat (VmxonRegionPhysicalAddress V') - unat phys < 4096
        \<and> unat (VmxonRegionPhysicalAddress V') + 2 * VMXON_SIZE p
             \<le> unat phys + (2 * VMXON_SIZE p + ALIGNMENT_PAGE_SIZE)"
    apply (rule exI [of _ "aligned_address buf"])
    apply (rule exI [of _ msr])
    apply (insert P' m l [unfolded ph, folded P'] rd k va pa)
    apply (elim conjE)
    apply (intro conjI)
    apply (assumption | rule refl)+
    done
next
  assume ok: "VmxAllocateVmcsRegion p VCpu s = Some (True, W', t')"
    and b: "allocator p (alloc_calls s) (2 * VMCS_SIZE p + ALIGNMENT_PAGE_SIZE) = buf"
    and ph: "VirtualAddressToPhysicalAddress p buf = phys"
    and fv: "unat buf + (2 * VMCS_SIZE p + ALIGNMENT_PAGE_SIZE) \<le> 2 ^ 64"
    and fp: "unat phys + (2 * VMCS_SIZE p + ALIGNMENT_PAGE_SIZE) \<le> 2 ^ 64"
  from Vmcs_success_state [OF ok b] obtain msr where
    m: "readmsr p IA32_VMX_BASIC = Some msr"
    and l: "logged t' = logged s @
            [LogDebugInfo ''VMCS region address : %llx'' [aligned_address buf],
             LogDebugInfo ''VMCS region physical address : %llx''
               [aligned_address (VirtualAddressToPhysicalAddress p buf)],
             LogDebugInfo ''Revision Identifier (IA32_VMX_BASIC - MSR 0x480) : 0x%x''
               [take_bit 31 msr]]"
    and k: "blocks t' = (buf, 2 * VMCS_SIZE p + ALIGNMENT_PAGE_SIZE) # blocks s"
    and w: "memory t' = write_u64 (aligned_address buf) (take_bit 31 msr)
            (RtlZeroMemory buf (2 * VMCS_SIZE p + ALIGNMENT_PAGE_SIZE) (memory s))"
    and P: "VmcsRegionPhysicalAddress W'
            = aligned_address (VirtualAddressToPhysicalAddress p buf)"
    by blast
  have P': "VmcsRegionPhysicalAddress W' = aligned_address phys"
    using P ph by simp
  have rd: "read_u64 (memory t') (aligned_address buf) = take_bit 31 msr"
    unfolding w by (rule read_write_u64)
  note va = aligned_address_round_up [OF fv]
  note pa = aligned_address_round_up [OF fp, folded P']
  show "\<exists>A msr.
          A = aligned_address buf
        \<and> VmcsRegionPhysicalAddress W' = aligned_address phys
        \<and> readmsr p IA32_VMX_BASIC = Some msr
        \<and> logged t' = logged s @
             [LogDebugInfo ''VMCS region address : %llx'' [A],
              LogDebugInfo ''VMCS region physical address : %llx''
                [VmcsRegionPhysicalAddress W'],
              LogDebugInfo ''Revision Identifier (IA32_VMX_BASIC - MSR 0x480) : 0x%x''
                [take_bit 31 msr]]
        \<and> read_u64 (memory t') A = take_bit 31 msr
        \<and> blocks t' = (buf, 2 * VMCS_SIZE p + ALIGNMENT_PAGE_SIZE) # blocks s
        \<and> unat A mod 4096 = 0
        \<and> unat buf \<le> unat A
        \<and> (\<forall>m. m mod 4096 = 0 \<and> unat buf \<le> m \<longrightarrow> unat A \<le> m)
        \<and> unat A - unat buf < 4096
        \<and> unat A + 2 * VMCS_SIZE p
             \<le> unat buf + (2 * VMCS_SIZE p + ALIGNMENT_PAGE_SIZE)
        \<and> unat (VmcsRegionPhysicalAddress W') mod 4096 = 0
        \<and> unat phys \<le> unat (VmcsRegionPhysicalAddress W')
        \<and> (\<forall>m. m mod 4096 = 0 \<and> unat phys \<le> m
               \<longrightarrow> unat (VmcsRegionPhysicalAddress W') \<le> m)
        \<and> unat (VmcsRegionPhysicalAddress W') - unat phys < 4096
        \<and> unat (VmcsRegionPhysicalAddress W') + 2 * VMCS_SIZE p
             \<le> unat phys + (2 * VMCS_SIZE p + ALIGNMENT_PAGE_SIZE)"
    apply (rule exI [of _ "aligned_address buf"])
    apply (rule exI [of _ msr])
    apply (insert P' m l [unfolded ph, folded P'] rd k va pa)
    apply (elim conjE)
    apply (intro conjI)
    apply (assumption | rule refl)+
    done
qed

theorem region_allocators_aligned_addresses_witness:
  "allocator test_platform (alloc_calls boot_machine)
      (2 * VMXON_SIZE test_platform + ALIGNMENT_PAGE_SIZE) = 0xFFFF800000100010
   \<and> allocator test_platform (alloc_calls boot_machine)
      (2 * VMCS_SIZE test_platform + ALIGNMENT_PAGE_SIZE) = 0xFFFF800000100010
   \<and> VirtualAddressToPhysicalAddress test_platform 0xFFFF800000100010 = 0x100010
   \<and> unat (0xFFFF800000100010 :: 64 word)
        + (2 * VMXON_SIZE test_platform + ALIGNMENT_PAGE_SIZE) \<le> 2 ^ 64
   \<and> unat (0x100010 :: 64 word)
        + (2 * VMXON_SIZE test_platform + ALIGNMENT_PAGE_SIZE) \<le> 2 ^ 64
   \<and> unat (0xFFFF800000100010 :: 64 word)
        + (2 * VMCS_SIZE test_platform + ALIGNMENT_PAGE_SIZE) \<le> 2 ^ 64
   \<and> unat (0x100010 :: 64 word)
        + (2 * VMCS_SIZE test_platform + ALIGNMENT_PAGE_SIZE) \<le> 2 ^ 64
   \<and> (\<exists>V' s'. VmxAllocateVmxonRegion test_platform empty_context boot_machine
                 = Some (True, V', s')
          \<and> VmxonRegionPhysicalAddress V' = 0x101000
          \<and> logged s' =
               [LogDebugInfo ''VMXON Region Address : %llx'' [0xFFFF800000101000],
                LogDebugInfo ''VMXON Region Physical Address : %llx'' [0x101000],
                LogDebugInfo ''Revision Identifier (IA32_VMX_BASIC - MSR 0x480) : 0x%x''
                  [31]]
          \<and> read_u64 (memory s') 0xFFFF800000101000 = 31
          \<and> blocks s' = [(0xFFFF800000100010, 12288)])
   \<and> (\<exists>W' t'. VmxAllocateVmcsRegion test_platform empty_context boot_machine
                 = Some (True, W', t')
          \<and> VmcsRegionPhysicalAddress W' = 0x101000
          \<and> logged t' =
               [LogDebugInfo ''VMCS region address : %llx'' [0xFFFF800000101000],
                LogDebugInfo ''VMCS region physical address : %llx'' [0x101000],
                LogDebugInfo ''Revision Identifier (IA32_VMX_BASIC - MSR 0x480) : 0x%x''
                  [31]]
          \<and> read_u64 (memory t') 0xFFFF800000101000 = 31
          \<and> blocks t' = [(0xFFFF800000100010, 12288)])"
proof -
  have m: "readmsr test_platform IA32_VMX_BASIC = Some 0xDA04000000001F"
    by (simp add: test_platform_def IA32_VMX_BASIC_def)
  have low: "take_bit 31 (0xDA04000000001F :: 64 word) = 31"
    by (simp add: take_bit_eq_mod)
  have von: "vmx_on test_platform x = 0" for x by (simp add: test_platform_def)
  have a1: "allocator test_platform (alloc_calls boot_machine)
              (2 * VMXON_SIZE test_platform + ALIGNMENT_PAGE_SIZE) = 0xFFFF800000100010"
    and a2: "allocator test_platform (alloc_calls boot_machine)
              (2 * VMCS_SIZE test_platform + ALIGNMENT_PAGE_SIZE) = 0xFFFF800000100010"
    by (simp_all add: test_platform_def boot_machine_def)
  have nz: "(0xFFFF800000100010 :: 64 word) \<noteq> 0" by simp
  have ph: "VirtualAddressToPhysicalAddress test_platform 0xFFFF800000100010 = 0x100010"
    by (simp add: test_platform_def)
  have sz: "2 * VMXON_SIZE test_platform + ALIGNMENT_PAGE_SIZE = 12288"
    "2 * VMCS_SIZE test_platform + ALIGNMENT_PAGE_SIZE = 12288"
    by (simp_all add: test_platform_def ALIGNMENT_PAGE_SIZE_def)
  have f: "unat (0xFFFF800000100010 :: 64 word) + 12288 \<le> 2 ^ 64"
    "unat (0x100010 :: 64 word) + 12288 \<le> 2 ^ 64"
    by simp_all
  have al: "aligned_address 0xFFFF800000100010 = 0xFFFF800000101000"
    "aligned_address 0x100010 = 0x101000"
    by (simp_all add: aligned_address_def ALIGNMENT_PAGE_SIZE_def)
  have lg: "logged boot_machine = []" "blocks boot_machine = []"
    by (simp_all add: boot_machine_def)
  obtain V' s' where
    1: "VmxAllocateVmxonRegion test_platform empty_context boot_machine = Some (True, V', s')"
    using Vmxon_returns [OF a1 nz m, of empty_context] von by auto
  obtain W' t' where
    2: "VmxAllocateVmcsRegion test_platform empty_context boot_machine = Some (True, W', t')"
    using Vmcs_returns [OF a2 nz m, of empty_context] by auto
  note t = region_allocators_aligned_addresses
             [of test_platform empty_context boot_machine V' s'
                 "0xFFFF800000100010" "0x100010" W' t']
  have on: "VmxonRegionPhysicalAddress V' = 0x101000
          \<and> logged s' =
               [LogDebugInfo ''VMXON Region Address : %llx'' [0xFFFF800000101000],
                LogDebugInfo ''VMXON Region Physical Address : %llx'' [0x101000],
                LogDebugInfo ''Revision Identifier (IA32_VMX_BASIC - MSR 0x480) : 0x%x''
                  [31]]
          \<and> read_u64 (memory s') 0xFFFF800000101000 = 31
          \<and> blocks s' = [(0xFFFF800000100010, 12288)]"
    using t [THEN conjunct1] 1 a1 ph f m low
    by (simp only: sz al lg) auto
  have cs: "VmcsRegionPhysicalAddress W' = 0x101000
          \<and> logged t' =
               [LogDebugInfo ''VMCS region address : %llx'' [0xFFFF800000101000],
                LogDebugInfo ''VMCS region physical address : %llx'' [0x101000],
                LogDebugInfo ''Revision Identifier (IA32_VMX_BASIC - MSR 0x480) : 0x%x''
                  [31]]
          \<and> read_u64 (memory t') 0xFFFF800000101000 = 31
          \<and> blocks t' = [(0xFFFF800000100010, 12288)]"
    using t [THEN conjunct2] 2 a2 ph f m low
    by (simp only: sz al lg) auto
  show ?thesis
    using a1 a2 ph f 1 2 on cs by (simp only: sz) blast
qed

text \<open>
  C4.  With a readable capability register, \<^verbatim>\<open>VmxAllocateVmxonRegion\<close> returns, and it
  returns false if and only if the buffer allocation failed or \<^verbatim>\<open>vmxon\<close> returned a
  non-zero status; otherwise it returns true.  Both failures give the same \<open>False\<close>, and
  in both the last thing done before returning is a \<^verbatim>\<open>LogError\<close>, with a message of its
  own for each failure.
\<close>

theorem VmxAllocateVmxonRegion_outcome:
  assumes "readmsr p IA32_VMX_BASIC = Some msr"
  shows "\<exists>r V' s'.
           VmxAllocateVmxonRegion p VCpu s = Some (r, V', s')
         \<and> (r = False \<longleftrightarrow>
              allocator p (alloc_calls s) (2 * VMXON_SIZE p + ALIGNMENT_PAGE_SIZE) = 0
              \<or> vmx_on p (aligned_address (VirtualAddressToPhysicalAddress p
                   (allocator p (alloc_calls s) (2 * VMXON_SIZE p + ALIGNMENT_PAGE_SIZE)))) \<noteq> 0)
         \<and> (allocator p (alloc_calls s) (2 * VMXON_SIZE p + ALIGNMENT_PAGE_SIZE) = 0 \<longrightarrow>
              logged s' = logged s
                @ [LogError ''Err, couldn't allocate buffer for VMXON region'' []])
         \<and> (allocator p (alloc_calls s) (2 * VMXON_SIZE p + ALIGNMENT_PAGE_SIZE) \<noteq> 0
              \<and> vmx_on p (aligned_address (VirtualAddressToPhysicalAddress p
                   (allocator p (alloc_calls s) (2 * VMXON_SIZE p + ALIGNMENT_PAGE_SIZE)))) \<noteq> 0
            \<longrightarrow> last (logged s') =
                  LogError ''Err, executing vmxon instruction failed with status : %d''
                    [ucast (vmx_on p (aligned_address (VirtualAddressToPhysicalAddress p
                       (allocator p (alloc_calls s)
                          (2 * VMXON_SIZE p + ALIGNMENT_PAGE_SIZE)))))])"
proof (cases "allocator p (alloc_calls s) (2 * VMXON_SIZE p + ALIGNMENT_PAGE_SIZE) = 0")
  case True
  show ?thesis
    using True by (auto simp: Vmxon_alloc_failed)
next
  case False
  from Vmxon_returns [OF refl False assms, of VCpu]
  obtain s' where
    r: "VmxAllocateVmxonRegion p VCpu s =
          Some (vmx_on p (aligned_address (VirtualAddressToPhysicalAddress p
                  (allocator p (alloc_calls s) (2 * VMXON_SIZE p + ALIGNMENT_PAGE_SIZE)))) = 0,
                (if vmx_on p (aligned_address (VirtualAddressToPhysicalAddress p
                       (allocator p (alloc_calls s) (2 * VMXON_SIZE p + ALIGNMENT_PAGE_SIZE)))) = 0
                 then VCpu\<lparr>VmxonRegionPhysicalAddress :=
                        aligned_address (VirtualAddressToPhysicalAddress p
                          (allocator p (alloc_calls s) (2 * VMXON_SIZE p + ALIGNMENT_PAGE_SIZE))),
                      VmxonRegionVirtualAddress :=
                        allocator p (alloc_calls s) (2 * VMXON_SIZE p + ALIGNMENT_PAGE_SIZE)\<rparr>
                 else VCpu), s')"
    and l: "vmx_on p (aligned_address (VirtualAddressToPhysicalAddress p
                  (allocator p (alloc_calls s) (2 * VMXON_SIZE p + ALIGNMENT_PAGE_SIZE)))) \<noteq> 0
            \<longrightarrow> last (logged s') =
                  LogError ''Err, executing vmxon instruction failed with status : %d''
                    [ucast (vmx_on p (aligned_address (VirtualAddressToPhysicalAddress p
                       (allocator p (alloc_calls s)
                          (2 * VMXON_SIZE p + ALIGNMENT_PAGE_SIZE)))))]"
    by blast
  show ?thesis
    unfolding r using False l by simp
qed

theorem VmxAllocateVmxonRegion_outcome_witness:
  "readmsr test_platform IA32_VMX_BASIC = Some 0xDA04000000001F
   \<and> (\<exists>V' s'. VmxAllocateVmxonRegion test_platform empty_context boot_machine
                  = Some (True, V', s'))
   \<and> (\<exists>V' s'. VmxAllocateVmxonRegion exhausted_platform empty_context boot_machine
                  = Some (False, V', s')
             \<and> logged s' = [LogError ''Err, couldn't allocate buffer for VMXON region'' []])
   \<and> (\<exists>V' s'. VmxAllocateVmxonRegion vmxon_failing_platform empty_context boot_machine
                  = Some (False, V', s')
             \<and> last (logged s') =
                  LogError ''Err, executing vmxon instruction failed with status : %d'' [1])"
proof -
  have m: "readmsr test_platform IA32_VMX_BASIC = Some 0xDA04000000001F"
    "readmsr exhausted_platform IA32_VMX_BASIC = Some 0xDA04000000001F"
    "readmsr vmxon_failing_platform IA32_VMX_BASIC = Some 0xDA04000000001F"
    by (simp_all add: test_platform_def exhausted_platform_def vmxon_failing_platform_def
          IA32_VMX_BASIC_def)
  have ok: "allocator test_platform (alloc_calls boot_machine)
              (2 * VMXON_SIZE test_platform + ALIGNMENT_PAGE_SIZE) \<noteq> 0"
      "vmx_on test_platform x = 0"
    and ex: "allocator exhausted_platform (alloc_calls boot_machine)
              (2 * VMXON_SIZE exhausted_platform + ALIGNMENT_PAGE_SIZE) = 0"
    and vf: "allocator vmxon_failing_platform (alloc_calls boot_machine)
              (2 * VMXON_SIZE vmxon_failing_platform + ALIGNMENT_PAGE_SIZE) \<noteq> 0"
      "vmx_on vmxon_failing_platform x = 1"
    and lg: "logged boot_machine = []"
    for x
    by (simp_all add: test_platform_def exhausted_platform_def vmxon_failing_platform_def
          boot_machine_def)
  have one: "ucast (1 :: 8 word) = (1 :: 64 word)" by simp
  show ?thesis
    using VmxAllocateVmxonRegion_outcome [OF m(1), of empty_context boot_machine]
      VmxAllocateVmxonRegion_outcome [OF m(2), of empty_context boot_machine]
      VmxAllocateVmxonRegion_outcome [OF m(3), of empty_context boot_machine]
    by (simp only: m ok ex vf lg one) auto
qed

text \<open>
  C5, as the spec states it, fails: with \<^verbatim>\<open>vmxon\<close> returning status 1 the function
  returns before it assigns the two context fields, so the addresses of the region are not
  in the context.  On \<open>vmxon_failing_platform\<close> the buffer is at
  \<open>0xFFFF800000100010\<close>, yet both fields of the empty context are still 0.
\<close>

theorem vmxon_failure_populates_context_counterexample:
  "vmx_on vmxon_failing_platform
     (aligned_address (VirtualAddressToPhysicalAddress vmxon_failing_platform
        0xFFFF800000100010)) = 1
   \<and> allocator vmxon_failing_platform (alloc_calls boot_machine)
        (2 * VMXON_SIZE vmxon_failing_platform + ALIGNMENT_PAGE_SIZE) = 0xFFFF800000100010
   \<and> VmxAllocateVmxonRegion vmxon_failing_platform empty_context boot_machine \<noteq> None
   \<and> fst (the (VmxAllocateVmxonRegion vmxon_failing_platform empty_context boot_machine))
        = False
   \<and> VmxonRegionVirtualAddress
        (fst (snd (the (VmxAllocateVmxonRegion vmxon_failing_platform empty_context
           boot_machine)))) = 0
   \<and> VmxonRegionPhysicalAddress
        (fst (snd (the (VmxAllocateVmxonRegion vmxon_failing_platform empty_context
           boot_machine)))) = 0"
proof -
  have m: "readmsr vmxon_failing_platform IA32_VMX_BASIC = Some 0xDA04000000001F"
    by (simp add: test_platform_def vmxon_failing_platform_def IA32_VMX_BASIC_def)
  have a: "allocator vmxon_failing_platform (alloc_calls boot_machine)
        (2 * VMXON_SIZE vmxon_failing_platform + ALIGNMENT_PAGE_SIZE) = 0xFFFF800000100010"
    by (simp add: test_platform_def vmxon_failing_platform_def boot_machine_def)
  have v: "vmx_on vmxon_failing_platform x = 1" for x
    by (simp add: test_platform_def vmxon_failing_platform_def)
  have nz: "(0xFFFF800000100010 :: 64 word) \<noteq> 0" by simp
  have e: "VmxonRegionVirtualAddress empty_context = 0"
    "VmxonRegionPhysicalAddress empty_context = 0"
    by (simp_all add: empty_context_def)
  from Vmxon_returns [OF a nz m, of empty_context]
  obtain s' where
    "VmxAllocateVmxonRegion vmxon_failing_platform empty_context boot_machine =
       Some (False, empty_context, s')"
    by (auto simp: v)
  then show ?thesis using a v e by simp
qed

text \<open>
  C5, amended.  When the allocation succeeds and \<^verbatim>\<open>vmxon\<close> returns status 1, the
  VMXON region has been produced in memory: the buffer is a live block, the aligned address
  in it is a multiple of 4096 and holds the revision identifier.  The call returns false and
  the context is unchanged: no address is stored in it, and no other field (such as one that
  marks the processor active) is touched.
\<close>

theorem vmxon_failure_region_built_context_unchanged:
  assumes "readmsr p IA32_VMX_BASIC = Some msr"
    and "allocator p (alloc_calls s) (2 * VMXON_SIZE p + ALIGNMENT_PAGE_SIZE) = buf"
    and "buf \<noteq> 0"
    and "vmx_on p (aligned_address (VirtualAddressToPhysicalAddress p buf)) = 1"
  shows "\<exists>s'. VmxAllocateVmxonRegion p VCpu s = Some (False, VCpu, s')
       \<and> (buf, 2 * VMXON_SIZE p + ALIGNMENT_PAGE_SIZE) \<in> set (blocks s')
       \<and> unat (aligned_address buf) mod 4096 = 0
       \<and> unat (aligned_address (VirtualAddressToPhysicalAddress p buf)) mod 4096 = 0
       \<and> read_u64 (memory s') (aligned_address buf) = take_bit 31 msr"
  using Vmxon_returns [OF assms(2,3,1), of VCpu] assms(4)
  by (auto simp: aligned_address_multiple read_write_u64 VmcsRevisionId_def)

theorem vmxon_failure_region_built_context_unchanged_witness:
  "readmsr vmxon_failing_platform IA32_VMX_BASIC = Some 0xDA04000000001F
   \<and> allocator vmxon_failing_platform (alloc_calls boot_machine)
        (2 * VMXON_SIZE vmxon_failing_platform + ALIGNMENT_PAGE_SIZE) = 0xFFFF800000100010
   \<and> vmx_on vmxon_failing_platform
        (aligned_address (VirtualAddressToPhysicalAddress vmxon_failing_platform
           0xFFFF800000100010)) = 1
   \<and> (\<exists>s'. VmxAllocateVmxonRegion vmxon_failing_platform empty_context boot_machine
               = Some (False, empty_context, s')
          \<and> (0xFFFF800000100010, 12288) \<in> set (blocks s')
          \<and> read_u64 (memory s') 0xFFFF800000101000 = 31)"
proof -
  have m: "readmsr vmxon_failing_platform IA32_VMX_BASIC = Some 0xDA04000000001F"
    by (simp add: test_platform_def vmxon_failing_platform_def IA32_VMX_BASIC_def)
  have a: "allocator vmxon_failing_platform (alloc_calls boot_machine)
        (2 * VMXON_SIZE vmxon_failing_platform + ALIGNMENT_PAGE_SIZE) = 0xFFFF800000100010"
    by (simp add: test_platform_def vmxon_failing_platform_def boot_machine_def)
  have v: "vmx_on vmxon_failing_platform
        (aligned_address (VirtualAddressToPhysicalAddress vmxon_failing_platform
           0xFFFF800000100010)) = 1"
    by (simp add: test_platform_def vmxon_failing_platform_def)
  have nz: "(0xFFFF800000100010 :: 64 word) \<noteq> 0" by simp
  have sz: "2 * VMXON_SIZE vmxon_failing_platform + ALIGNMENT_PAGE_SIZE = 12288"
    by (simp add: test_platform_def vmxon_failing_platform_def ALIGNMENT_PAGE_SIZE_def)
  have al: "aligned_address 0xFFFF800000100010 = 0xFFFF800000101000"
    by (simp add: aligned_address_def ALIGNMENT_PAGE_SIZE_def)
  have low: "take_bit 31 (0xDA04000000001F :: 64 word) = 31"
    by (simp add: take_bit_eq_mod)
  show ?thesis
    using vmxon_failure_region_built_context_unchanged [OF m a nz v, of empty_context]
      m a v
    by (simp only: sz al low) blast
qed

text \<open>
  C6, as the spec states it, fails: the loop probes the indices 0 to 4095 only, and the
  bitmap has 4096 bits.  With a read that faults for index \<open>0xC0000080\<close> only, no bit is
  set: neither one of the 4096 bits of the bitmap (bit \<open>0x80\<close> is shown), nor the bit that
  \<^verbatim>\<open>TestBit\<close> finds for index \<open>0xC0000080\<close>, which lies beyond the 512 bytes.
\<close>

theorem efer_fault_sets_bit_counterexample:
  "readmsr efer_faulting_platform 0xC0000080 = None
   \<and> fst (VmxAllocateInvalidMsrBimap efer_faulting_platform boot_machine) \<noteq> 0
   \<and> \<not> TestBit 0xC0000080
          (fst (VmxAllocateInvalidMsrBimap efer_faulting_platform boot_machine))
          (memory (snd (VmxAllocateInvalidMsrBimap efer_faulting_platform boot_machine)))
   \<and> \<not> TestBit 0x80
          (fst (VmxAllocateInvalidMsrBimap efer_faulting_platform boot_machine))
          (memory (snd (VmxAllocateInvalidMsrBimap efer_faulting_platform boot_machine)))"
proof -
  let ?r = "VmxAllocateInvalidMsrBimap efer_faulting_platform boot_machine"
  have a: "allocator efer_faulting_platform (alloc_calls boot_machine) 512
             = 0xFFFF800000100010"
    by (simp add: efer_faulting_platform_def test_platform_def boot_machine_def)
  have nz: "(0xFFFF800000100010 :: 64 word) \<noteq> 0" by simp
  have b: "fst ?r = 0xFFFF800000100010"
    using InvalidMsrBimap_built [OF a nz] by simp
  have f: "readmsr efer_faulting_platform 0xC0000080 = None"
    and g: "readmsr efer_faulting_platform (of_nat 0x80) \<noteq> None"
    by (simp_all add: efer_faulting_platform_def test_platform_def)
  have far: "\<not> unat ((fst ?r + of_nat (0xC0000080 div 8)) - fst ?r) < 512"
    by simp
  have "memory (snd ?r) (fst ?r + of_nat (0xC0000080 div 8))
          = memory boot_machine (fst ?r + of_nat (0xC0000080 div 8))"
    by (rule InvalidMsrBimap_frame [OF surjective_pairing far])
  also have "\<dots> = 0" by (simp add: boot_machine_def)
  finally have out: "\<not> TestBit 0xC0000080 (fst ?r) (memory (snd ?r))"
    by (simp add: TestBit_def)
  have "fst ?r \<noteq> 0" using b by simp
  then have "TestBit 0x80 (fst ?r) (memory (snd ?r)) \<longleftrightarrow>
               readmsr efer_faulting_platform (of_nat 0x80) = None"
    by (intro InvalidMsrBimap_bit [OF surjective_pairing]) simp_all
  then have inn: "\<not> TestBit 0x80 (fst ?r) (memory (snd ?r))"
    using g by simp
  show ?thesis using f b out inn by simp
qed

text \<open>
  C6, amended.  When the MSR read faults for exactly one index \<open>k\<close>, the bit of the
  returned bitmap at an index below 4096 is set if and only if that index is \<open>k\<close>.  So a
  fault at an index from 0 to 4095 sets that bit and no other, and a fault at \<open>0xC0000080\<close>,
  which the loop never probes, leaves all 4096 bits clear.
\<close>

theorem single_fault_bitmap:
  assumes "VmxAllocateInvalidMsrBimap p s = (InvalidMsrBitmap, s')"
    and "InvalidMsrBitmap \<noteq> 0"
    and "\<forall>i. readmsr p i = None \<longleftrightarrow> i = k"
  shows "(\<forall>i<4096. TestBit i InvalidMsrBitmap (memory s') \<longleftrightarrow> i = unat k)
       \<and> (k = 0xC0000080 \<longrightarrow> (\<forall>i<4096. \<not> TestBit i InvalidMsrBitmap (memory s')))"
proof -
  have bits: "TestBit i InvalidMsrBitmap (memory s') \<longleftrightarrow> i = unat k" if "i < 4096" for i
  proof -
    have "unat (of_nat i :: 32 word) = i"
      using that by (simp add: unat_of_nat)
    then have "(of_nat i :: 32 word) = k \<longleftrightarrow> i = unat k"
      by (metis of_nat_unat ucast_id)
    moreover have "TestBit i InvalidMsrBitmap (memory s') \<longleftrightarrow> readmsr p (of_nat i) = None"
      using InvalidMsrBimap_bit [OF assms(1,2)] that by simp
    ultimately show ?thesis using assms(3) by simp
  qed
  have "\<not> TestBit i InvalidMsrBitmap (memory s')" if "i < 4096" and "k = 0xC0000080" for i
    using bits [OF that(1)] that by auto
  then show ?thesis using bits by blast
qed

theorem single_fault_bitmap_witness:
  "fst (VmxAllocateInvalidMsrBimap efer_faulting_platform boot_machine) \<noteq> 0
   \<and> (\<forall>i. readmsr efer_faulting_platform i = None \<longleftrightarrow> i = 0xC0000080)
   \<and> \<not> TestBit 0 (fst (VmxAllocateInvalidMsrBimap efer_faulting_platform boot_machine))
          (memory (snd (VmxAllocateInvalidMsrBimap efer_faulting_platform boot_machine)))
   \<and> \<not> TestBit 0x80 (fst (VmxAllocateInvalidMsrBimap efer_faulting_platform boot_machine))
          (memory (snd (VmxAllocateInvalidMsrBimap efer_faulting_platform boot_machine)))
   \<and> \<not> TestBit 4095 (fst (VmxAllocateInvalidMsrBimap efer_faulting_platform boot_machine))
          (memory (snd (VmxAllocateInvalidMsrBimap efer_faulting_platform boot_machine)))"
proof -
  let ?r = "VmxAllocateInvalidMsrBimap efer_faulting_platform boot_machine"
  have a: "allocator efer_faulting_platform (alloc_calls boot_machine) 512
             = 0xFFFF800000100010"
    by (simp add: efer_faulting_platform_def test_platform_def boot_machine_def)
  have nz: "(0xFFFF800000100010 :: 64 word) \<noteq> 0" by simp
  have b: "fst ?r \<noteq> 0"
    using InvalidMsrBimap_built [OF a nz] by simp
  have f: "\<forall>i. readmsr efer_faulting_platform i = None \<longleftrightarrow> i = 0xC0000080"
    by (simp add: efer_faulting_platform_def test_platform_def)
  have "\<forall>i<4096. \<not> TestBit i (fst ?r) (memory (snd ?r))"
    using single_fault_bitmap [OF surjective_pairing b f] by blast
  moreover have "(0::nat) < 4096" "(0x80::nat) < 4096" "(4095::nat) < 4096" by simp_all
  ultimately show ?thesis using b f by blast
qed

text \<open>
  C7.  When the allocation behind an operation fails, the operation returns false and
  stores no address of the failed structure in the context.  The two region allocators
  leave the context unchanged.  The stack, MSR bitmap and I/O bitmap allocators assign the
  allocator's \<^verbatim>\<open>NULL\<close> to the virtual-address field of the failed structure, and do not
  reach the assignment of its physical address.  When I/O bitmap A is allocated and B is
  not, the failed structure is B: its virtual-address field is \<^verbatim>\<open>NULL\<close> and its
  physical-address field is untouched.
\<close>

theorem allocation_failure_publishes_nothing:
  "(allocator p (alloc_calls s) (2 * VMXON_SIZE p + ALIGNMENT_PAGE_SIZE) = 0 \<longrightarrow>
      (\<exists>s'. VmxAllocateVmxonRegion p VCpu s = Some (False, VCpu, s')))
   \<and> (allocator p (alloc_calls s) (2 * VMCS_SIZE p + ALIGNMENT_PAGE_SIZE) = 0 \<longrightarrow>
      (\<exists>s'. VmxAllocateVmcsRegion p VCpu s = Some (False, VCpu, s')))
   \<and> (allocator p (alloc_calls s) (VMM_STACK_SIZE p) = 0 \<longrightarrow>
      (\<exists>s'. VmxAllocateVmmStack p VCpu s = (False, VCpu\<lparr>VmmStack := 0\<rparr>, s')))
   \<and> (allocator p (alloc_calls s) PAGE_SIZE = 0 \<longrightarrow>
      (\<exists>s'. VmxAllocateMsrBitmap p VCpu s =
               (False, VCpu\<lparr>MsrBitmapVirtualAddress := 0\<rparr>, s'))
      \<and> (\<exists>s'. VmxAllocateIoBitmaps p VCpu s =
               (False, VCpu\<lparr>IoBitmapVirtualAddressA := 0\<rparr>, s')))
   \<and> (allocator p (alloc_calls s) PAGE_SIZE \<noteq> 0
        \<and> allocator p (Suc (alloc_calls s)) PAGE_SIZE = 0 \<longrightarrow>
      (\<exists>V' s'. VmxAllocateIoBitmaps p VCpu s = (False, V', s')
          \<and> IoBitmapVirtualAddressB V' = 0
          \<and> IoBitmapPhysicalAddressB V' = IoBitmapPhysicalAddressB VCpu))"
proof (intro conjI impI)
  assume "allocator p (alloc_calls s) (2 * VMXON_SIZE p + ALIGNMENT_PAGE_SIZE) = 0"
  then show "\<exists>s'. VmxAllocateVmxonRegion p VCpu s = Some (False, VCpu, s')"
    by (simp add: Vmxon_alloc_failed)
next
  assume "allocator p (alloc_calls s) (2 * VMCS_SIZE p + ALIGNMENT_PAGE_SIZE) = 0"
  then show "\<exists>s'. VmxAllocateVmcsRegion p VCpu s = Some (False, VCpu, s')"
    by (simp add: Vmcs_alloc_failed)
next
  assume "allocator p (alloc_calls s) (VMM_STACK_SIZE p) = 0"
  then show "\<exists>s'. VmxAllocateVmmStack p VCpu s = (False, VCpu\<lparr>VmmStack := 0\<rparr>, s')"
    by (rule VmmStack_alloc_failed)
next
  assume "allocator p (alloc_calls s) PAGE_SIZE = 0"
  then show "\<exists>s'. VmxAllocateMsrBitmap p VCpu s =
               (False, VCpu\<lparr>MsrBitmapVirtualAddress := 0\<rparr>, s')"
    by (rule MsrBitmap_alloc_failed)
next
  assume "allocator p (alloc_calls s) PAGE_SIZE = 0"
  then show "\<exists>s'. VmxAllocateIoBitmaps p VCpu s =
               (False, VCpu\<lparr>IoBitmapVirtualAddressA := 0\<rparr>, s')"
    by (rule IoBitmaps_A_failed)
next
  assume "allocator p (alloc_calls s) PAGE_SIZE \<noteq> 0
            \<and> allocator p (Suc (alloc_calls s)) PAGE_SIZE = 0"
  then have "\<exists>s'. VmxAllocateIoBitmaps p VCpu s =
           (False,
            VCpu\<lparr>IoBitmapVirtualAddressA := allocator p (alloc_calls s) PAGE_SIZE,
                 IoBitmapPhysicalAddressA :=
                   VirtualAddressToPhysicalAddress p (allocator p (alloc_calls s) PAGE_SIZE),
                 IoBitmapVirtualAddressB := 0\<rparr>, s')"
    by (intro IoBitmaps_B_failed) simp_all
  then show "\<exists>V' s'. VmxAllocateIoBitmaps p VCpu s = (False, V', s')
          \<and> IoBitmapVirtualAddressB V' = 0
          \<and> IoBitmapPhysicalAddressB V' = IoBitmapPhysicalAddressB VCpu"
    by auto
qed

theorem allocation_failure_publishes_nothing_witness:
  "allocator exhausted_platform (alloc_calls boot_machine)
      (2 * VMXON_SIZE exhausted_platform + ALIGNMENT_PAGE_SIZE) = 0
   \<and> allocator exhausted_platform (alloc_calls boot_machine)
      (2 * VMCS_SIZE exhausted_platform + ALIGNMENT_PAGE_SIZE) = 0
   \<and> allocator exhausted_platform (alloc_calls boot_machine)
      (VMM_STACK_SIZE exhausted_platform) = 0
   \<and> allocator exhausted_platform (alloc_calls boot_machine) PAGE_SIZE = 0
   \<and> (\<exists>s'. VmxAllocateVmxonRegion exhausted_platform empty_context boot_machine
              = Some (False, empty_context, s'))
   \<and> (\<exists>s'. VmxAllocateVmcsRegion exhausted_platform empty_context boot_machine
              = Some (False, empty_context, s'))
   \<and> (\<exists>s'. VmxAllocateVmmStack exhausted_platform empty_context boot_machine
              = (False, empty_context, s'))
   \<and> (\<exists>s'. VmxAllocateMsrBitmap exhausted_platform empty_context boot_machine
              = (False, empty_context, s'))
   \<and> (\<exists>s'. VmxAllocateIoBitmaps exhausted_platform empty_context boot_machine
              = (False, empty_context, s'))
   \<and> allocator second_request_failing_platform (alloc_calls boot_machine) PAGE_SIZE \<noteq> 0
   \<and> allocator second_request_failing_platform (Suc (alloc_calls boot_machine)) PAGE_SIZE = 0
   \<and> (\<exists>V' s'. VmxAllocateIoBitmaps second_request_failing_platform empty_context boot_machine
              = (False, V', s')
          \<and> IoBitmapVirtualAddressB V' = 0 \<and> IoBitmapPhysicalAddressB V' = 0)"
proof -
  have ex: "allocator exhausted_platform k n = 0" for k n
    by (simp add: exhausted_platform_def test_platform_def)
  have sf: "allocator second_request_failing_platform (alloc_calls boot_machine) PAGE_SIZE \<noteq> 0"
    "allocator second_request_failing_platform (Suc (alloc_calls boot_machine)) PAGE_SIZE = 0"
    by (simp_all add: second_request_failing_platform_def test_platform_def boot_machine_def)
  have e: "empty_context\<lparr>VmmStack := 0\<rparr> = empty_context"
    "empty_context\<lparr>MsrBitmapVirtualAddress := 0\<rparr> = empty_context"
    "empty_context\<lparr>IoBitmapVirtualAddressA := 0\<rparr> = empty_context"
    "IoBitmapPhysicalAddressB empty_context = 0"
    by (simp_all add: empty_context_def)
  show ?thesis
    using allocation_failure_publishes_nothing
            [of exhausted_platform boot_machine empty_context]
      allocation_failure_publishes_nothing
            [of second_request_failing_platform boot_machine empty_context]
    by (simp only: ex sf e) simp
qed

text \<open>
  C8.  After a successful \<^verbatim>\<open>VmxAllocateVmxonRegion\<close> or \<^verbatim>\<open>VmxAllocateVmcsRegion\<close>
  the virtual-address field of the context holds the pointer the allocator returned, as it
  was returned, and the physical-address field holds the aligned physical address.
\<close>

theorem success_stores_unaligned_pointer:
  "(VmxAllocateVmxonRegion p VCpu s = Some (True, V', s') \<longrightarrow>
      VmxonRegionVirtualAddress V'
        = allocator p (alloc_calls s) (2 * VMXON_SIZE p + ALIGNMENT_PAGE_SIZE)
      \<and> VmxonRegionPhysicalAddress V'
        = aligned_address (VirtualAddressToPhysicalAddress p
            (allocator p (alloc_calls s) (2 * VMXON_SIZE p + ALIGNMENT_PAGE_SIZE))))
   \<and> (VmxAllocateVmcsRegion p VCpu s = Some (True, W', t') \<longrightarrow>
      VmcsRegionVirtualAddress W'
        = allocator p (alloc_calls s) (2 * VMCS_SIZE p + ALIGNMENT_PAGE_SIZE)
      \<and> VmcsRegionPhysicalAddress W'
        = aligned_address (VirtualAddressToPhysicalAddress p
            (allocator p (alloc_calls s) (2 * VMCS_SIZE p + ALIGNMENT_PAGE_SIZE))))"
proof (intro conjI impI)
  assume a: "VmxAllocateVmxonRegion p VCpu s = Some (True, V', s')"
  show "VmxonRegionVirtualAddress V'
          = allocator p (alloc_calls s) (2 * VMXON_SIZE p + ALIGNMENT_PAGE_SIZE)"
    using Vmxon_success_inv [OF a] by auto
  show "VmxonRegionPhysicalAddress V'
          = aligned_address (VirtualAddressToPhysicalAddress p
              (allocator p (alloc_calls s) (2 * VMXON_SIZE p + ALIGNMENT_PAGE_SIZE)))"
    using Vmxon_success_inv [OF a] by auto
next
  assume a: "VmxAllocateVmcsRegion p VCpu s = Some (True, W', t')"
  show "VmcsRegionVirtualAddress W'
          = allocator p (alloc_calls s) (2 * VMCS_SIZE p + ALIGNMENT_PAGE_SIZE)"
    using Vmcs_success_inv [OF a] by auto
  show "VmcsRegionPhysicalAddress W'
          = aligned_address (VirtualAddressToPhysicalAddress p
              (allocator p (alloc_calls s) (2 * VMCS_SIZE p + ALIGNMENT_PAGE_SIZE)))"
    using Vmcs_success_inv [OF a] by auto
qed

text \<open>On \<open>test_platform\<close> the buffer starts at \<open>0xFFFF800000100010\<close> and the aligned
  working address is \<open>0xFFFF800000101000\<close>; the context holds the former.\<close>

theorem success_stores_unaligned_pointer_witness:
  "aligned_address 0xFFFF800000100010 = 0xFFFF800000101000
   \<and> (\<exists>V' s'. VmxAllocateVmxonRegion test_platform empty_context boot_machine
                 = Some (True, V', s')
          \<and> VmxonRegionVirtualAddress V' = 0xFFFF800000100010
          \<and> VmxonRegionPhysicalAddress V' = 0x101000)
   \<and> (\<exists>W' t'. VmxAllocateVmcsRegion test_platform empty_context boot_machine
                 = Some (True, W', t')
          \<and> VmcsRegionVirtualAddress W' = 0xFFFF800000100010
          \<and> VmcsRegionPhysicalAddress W' = 0x101000)"
proof -
  have m: "readmsr test_platform IA32_VMX_BASIC = Some 0xDA04000000001F"
    by (simp add: test_platform_def IA32_VMX_BASIC_def)
  have von: "vmx_on test_platform x = 0" for x by (simp add: test_platform_def)
  have a1: "allocator test_platform (alloc_calls boot_machine)
              (2 * VMXON_SIZE test_platform + ALIGNMENT_PAGE_SIZE) = 0xFFFF800000100010"
    and a2: "allocator test_platform (alloc_calls boot_machine)
              (2 * VMCS_SIZE test_platform + ALIGNMENT_PAGE_SIZE) = 0xFFFF800000100010"
    by (simp_all add: test_platform_def boot_machine_def)
  have nz: "(0xFFFF800000100010 :: 64 word) \<noteq> 0" by simp
  have al: "aligned_address 0xFFFF800000100010 = 0xFFFF800000101000"
    by (simp add: aligned_address_def ALIGNMENT_PAGE_SIZE_def)
  have ph: "aligned_address (VirtualAddressToPhysicalAddress test_platform 0xFFFF800000100010)
              = 0x101000"
    by (simp add: aligned_address_def ALIGNMENT_PAGE_SIZE_def test_platform_def)
  obtain V' s' where
    1: "VmxAllocateVmxonRegion test_platform empty_context boot_machine = Some (True, V', s')"
    using Vmxon_returns [OF a1 nz m, of empty_context] von by auto
  obtain W' t' where
    2: "VmxAllocateVmcsRegion test_platform empty_context boot_machine = Some (True, W', t')"
    using Vmcs_returns [OF a2 nz m, of empty_context] by auto
  note t = success_stores_unaligned_pointer
             [of test_platform empty_context boot_machine V' s' W' t']
  show ?thesis using t 1 2 al
    by (simp only: a1 a2 ph) blast
qed

text \<open>
  C9.  When the buffer is allocated and \<^verbatim>\<open>vmxon\<close> returns a non-zero status,
  \<^verbatim>\<open>VmxAllocateVmxonRegion\<close> returns false with the context it was given, every field
  unchanged.  The buffer is still allocated, and its pointer is in no field of the context:
  the caller gets the boolean only.
\<close>

theorem vmxon_failure_leaves_context_unchanged:
  assumes "readmsr p IA32_VMX_BASIC = Some msr"
    and "allocator p (alloc_calls s) (2 * VMXON_SIZE p + ALIGNMENT_PAGE_SIZE) = buf"
    and "buf \<noteq> 0"
    and "vmx_on p (aligned_address (VirtualAddressToPhysicalAddress p buf)) \<noteq> 0"
  shows "\<exists>s'. VmxAllocateVmxonRegion p VCpu s = Some (False, VCpu, s')
       \<and> blocks s' = (buf, 2 * VMXON_SIZE p + ALIGNMENT_PAGE_SIZE) # blocks s"
  using Vmxon_returns [OF assms(2,3,1), of VCpu] assms(4) by auto

theorem vmxon_failure_leaves_context_unchanged_witness:
  "readmsr vmxon_failing_platform IA32_VMX_BASIC = Some 0xDA04000000001F
   \<and> allocator vmxon_failing_platform (alloc_calls boot_machine)
        (2 * VMXON_SIZE vmxon_failing_platform + ALIGNMENT_PAGE_SIZE) = 0xFFFF800000100010
   \<and> vmx_on vmxon_failing_platform
        (aligned_address (VirtualAddressToPhysicalAddress vmxon_failing_platform
           0xFFFF800000100010)) \<noteq> 0
   \<and> (\<exists>s'. VmxAllocateVmxonRegion vmxon_failing_platform empty_context boot_machine
               = Some (False, empty_context, s')
          \<and> blocks s' = [(0xFFFF800000100010, 12288)])"
proof -
  have m: "readmsr vmxon_failing_platform IA32_VMX_BASIC = Some 0xDA04000000001F"
    by (simp add: test_platform_def vmxon_failing_platform_def IA32_VMX_BASIC_def)
  have a: "allocator vmxon_failing_platform (alloc_calls boot_machine)
        (2 * VMXON_SIZE vmxon_failing_platform + ALIGNMENT_PAGE_SIZE) = 0xFFFF800000100010"
    by (simp add: test_platform_def vmxon_failing_platform_def boot_machine_def)
  have v: "vmx_on vmxon_failing_platform
        (aligned_address (VirtualAddressToPhysicalAddress vmxon_failing_platform
           0xFFFF800000100010)) \<noteq> 0"
    by (simp add: test_platform_def vmxon_failing_platform_def)
  have nz: "(0xFFFF800000100010 :: 64 word) \<noteq> 0" by simp
  have sz: "2 * VMXON_SIZE vmxon_failing_platform + ALIGNMENT_PAGE_SIZE = 12288"
    by (simp add: test_platform_def vmxon_failing_platform_def ALIGNMENT_PAGE_SIZE_def)
  have b: "blocks boot_machine = []" by (simp add: boot_machine_def)
  show ?thesis
    using vmxon_failure_leaves_context_unchanged [OF m a nz v, of empty_context] m a v
    by (simp only: sz b) blast
qed

text \<open>
  C10, as stated, fails: on the path where bitmap A is allocated and bitmap B is not, the
  function has assigned the allocator's \<^verbatim>\<open>NULL\<close> to \<^verbatim>\<open>IoBitmapVirtualAddressB\<close>
  before it tests it.  A context whose field held \<open>0xFFFF800000307000\<close> comes back with
  that field 0.
\<close>

theorem io_bitmap_b_failure_frame_counterexample:
  "allocator second_request_failing_platform (alloc_calls boot_machine) PAGE_SIZE \<noteq> 0
   \<and> allocator second_request_failing_platform (Suc (alloc_calls boot_machine)) PAGE_SIZE = 0
   \<and> fst (VmxAllocateIoBitmaps second_request_failing_platform reused_context boot_machine)
        = False
   \<and> IoBitmapVirtualAddressB reused_context = 0xFFFF800000307000
   \<and> IoBitmapVirtualAddressB
        (fst (snd (VmxAllocateIoBitmaps second_request_failing_platform reused_context
           boot_machine))) = 0"
proof -
  have a: "allocator second_request_failing_platform (alloc_calls boot_machine) PAGE_SIZE
             = 0xFFFF800000205000"
    and b: "allocator second_request_failing_platform (Suc (alloc_calls boot_machine)) PAGE_SIZE
             = 0"
    by (simp_all add: second_request_failing_platform_def test_platform_def boot_machine_def)
  have nz: "(0xFFFF800000205000 :: 64 word) \<noteq> 0" by simp
  have r: "IoBitmapVirtualAddressB reused_context = 0xFFFF800000307000"
    by (simp add: reused_context_def empty_context_def)
  from IoBitmaps_B_failed [OF a nz b, of reused_context]
  obtain s' where
    "VmxAllocateIoBitmaps second_request_failing_platform reused_context boot_machine =
       (False,
        reused_context\<lparr>IoBitmapVirtualAddressA := 0xFFFF800000205000,
          IoBitmapPhysicalAddressA :=
            VirtualAddressToPhysicalAddress second_request_failing_platform 0xFFFF800000205000,
          IoBitmapVirtualAddressB := 0\<rparr>, s')"
    by blast
  then show ?thesis using a b r by simp
qed

text \<open>
  C10, amended.  When the allocation of I/O bitmap A succeeds and that of bitmap B fails,
  \<^verbatim>\<open>VmxAllocateIoBitmaps\<close> returns false; \<^verbatim>\<open>IoBitmapVirtualAddressA\<close> and
  \<^verbatim>\<open>IoBitmapPhysicalAddressA\<close> hold the addresses of bitmap A,
  \<^verbatim>\<open>IoBitmapVirtualAddressB\<close> is \<^verbatim>\<open>NULL\<close>, and no other field is modified.
\<close>

theorem io_bitmap_b_failure_frame:
  assumes "allocator p (alloc_calls s) PAGE_SIZE = a" and "a \<noteq> 0"
    and "allocator p (Suc (alloc_calls s)) PAGE_SIZE = 0"
  shows "\<exists>s'. VmxAllocateIoBitmaps p VCpu s =
           (False,
            VCpu\<lparr>IoBitmapVirtualAddressA := a,
                 IoBitmapPhysicalAddressA := VirtualAddressToPhysicalAddress p a,
                 IoBitmapVirtualAddressB := 0\<rparr>, s')"
  using assms by (rule IoBitmaps_B_failed)

theorem io_bitmap_b_failure_frame_witness:
  "allocator second_request_failing_platform (alloc_calls boot_machine) PAGE_SIZE
     = 0xFFFF800000205000
   \<and> allocator second_request_failing_platform (Suc (alloc_calls boot_machine)) PAGE_SIZE = 0
   \<and> (\<exists>s'. VmxAllocateIoBitmaps second_request_failing_platform reused_context boot_machine =
           (False,
            empty_context\<lparr>IoBitmapVirtualAddressA := 0xFFFF800000205000,
                 IoBitmapPhysicalAddressA := 0x205000\<rparr>, s'))"
proof -
  have a: "allocator second_request_failing_platform (alloc_calls boot_machine) PAGE_SIZE
             = 0xFFFF800000205000"
    and b: "allocator second_request_failing_platform (Suc (alloc_calls boot_machine)) PAGE_SIZE
             = 0"
    by (simp_all add: second_request_failing_platform_def test_platform_def boot_machine_def)
  have nz: "(0xFFFF800000205000 :: 64 word) \<noteq> 0" by simp
  have ph: "VirtualAddressToPhysicalAddress second_request_failing_platform 0xFFFF800000205000
              = 0x205000"
    by (simp add: second_request_failing_platform_def test_platform_def)
  have c: "reused_context\<lparr>IoBitmapVirtualAddressA := 0xFFFF800000205000,
                 IoBitmapPhysicalAddressA := 0x205000,
                 IoBitmapVirtualAddressB := 0\<rparr>
           = empty_context\<lparr>IoBitmapVirtualAddressA := 0xFFFF800000205000,
                 IoBitmapPhysicalAddressA := 0x205000\<rparr>"
    by (simp add: reused_context_def empty_context_def)
  show ?thesis
    using io_bitmap_b_failure_frame [OF a nz b, of reused_context] a b
    by (simp only: ph c)
qed

end
